theory Spec2Isabelle
  imports Complex_Main "HOL-Library.AList"
begin

section \<open>Python values used by the normalizer\<close>

subsection \<open>Strings\<close>

text \<open>
  A Python \<open>str\<close> is a sequence of Unicode code points, so a string is a list of
  natural numbers. \<open>str ''abc''\<close> writes an ASCII literal; the four non-ASCII
  characters of \<open>main.py\<close> are named below.

  The character tables cover Basic Latin and Latin-1 Supplement (the alphabets of the
  Italian and English documents the program targets), the 29 white-space code points
  of \<open>str.isspace\<close>, and the seven code points further up that fold to or from
  a Latin-1 letter (U+0130, U+0131, U+017F, U+039C, U+03BC, U+212A, U+212B). Every
  other code point is carried unchanged and counts as caseless and as a non-digit.
\<close>

type_synonym ustr = "nat list"

definition str :: "string \<Rightarrow> ustr" where
  "str s = map of_char s"

definition euro :: nat where "euro = 8364"          \<comment> \<open>U+20AC\<close>
definition micro :: nat where "micro = 181"         \<comment> \<open>U+00B5\<close>
definition a_grave :: nat where "a_grave = 224"     \<comment> \<open>U+00E0\<close>
definition i_grave :: nat where "i_grave = 236"     \<comment> \<open>U+00EC\<close>

definition isspace :: "nat \<Rightarrow> bool" where
  "isspace c \<longleftrightarrow>
     (9 \<le> c \<and> c \<le> 13) \<or> (28 \<le> c \<and> c \<le> 32) \<or> c = 133 \<or> c = 160 \<or> c = 5760 \<or>
     (8192 \<le> c \<and> c \<le> 8202) \<or> c = 8232 \<or> c = 8233 \<or> c = 8239 \<or> c = 8287 \<or>
     c = 12288"

definition isdigit :: "nat \<Rightarrow> bool" where
  "isdigit c \<longleftrightarrow> 48 \<le> c \<and> c \<le> 57"

definition is_upper_cp :: "nat \<Rightarrow> bool" where
  "is_upper_cp c \<longleftrightarrow>
     (65 \<le> c \<and> c \<le> 90) \<or> (192 \<le> c \<and> c \<le> 222 \<and> c \<noteq> 215) \<or>
     c = 304 \<or> c = 924 \<or> c = 8490 \<or> c = 8491"

definition is_lower_cp :: "nat \<Rightarrow> bool" where
  "is_lower_cp c \<longleftrightarrow>
     (97 \<le> c \<and> c \<le> 122) \<or> c = 170 \<or> c = 181 \<or> c = 186 \<or>
     (223 \<le> c \<and> c \<le> 255 \<and> c \<noteq> 247) \<or> c = 305 \<or> c = 383 \<or> c = 956"

text \<open>The simple (one code point) lower-case mapping, as used by \<open>re.IGNORECASE\<close>.\<close>

definition tolower :: "nat \<Rightarrow> nat" where
  "tolower c =
     (if 65 \<le> c \<and> c \<le> 90 then c + 32
      else if 192 \<le> c \<and> c \<le> 222 \<and> c \<noteq> 215 then c + 32
      else if c = 304 then 105
      else if c = 924 then 956
      else if c = 8490 then 107
      else if c = 8491 then 229
      else c)"

text \<open>\<open>str.lower()\<close>: the full mapping; U+0130 becomes two code points.\<close>

definition lower_cp :: "nat \<Rightarrow> ustr" where
  "lower_cp c = (if c = 304 then [105, 775] else [tolower c])"

definition lower :: "ustr \<Rightarrow> ustr" where
  "lower s = concat (map lower_cp s)"

text \<open>
  \<open>str.isupper()\<close>: no lower-case character and at least one upper-case character.
\<close>

definition isupper :: "ustr \<Rightarrow> bool" where
  "isupper s \<longleftrightarrow> \<not> list_ex is_lower_cp s \<and> list_ex is_upper_cp s"

text \<open>\<open>str.strip()\<close> removes white space at both ends.\<close>

definition strip :: "ustr \<Rightarrow> ustr" where
  "strip s = rev (dropWhile isspace (rev (dropWhile isspace s)))"

text \<open>\<open>sub in s\<close> for strings: \<open>sub\<close> occurs as a contiguous run of \<open>s\<close>.\<close>

fun str_in :: "ustr \<Rightarrow> ustr \<Rightarrow> bool" where
  "str_in sub [] \<longleftrightarrow> sub = []"
| "str_in sub (c # t) \<longleftrightarrow> take (length sub) (c # t) = sub \<or> str_in sub t"

text \<open>\<open>any(term in s for term in terms)\<close>.\<close>

definition any_in :: "ustr list \<Rightarrow> ustr \<Rightarrow> bool" where
  "any_in terms s \<longleftrightarrow> list_ex (\<lambda>t. str_in t s) terms"

text \<open>\<open>s.replace(old, new)\<close> for one-character \<open>old\<close> and \<open>new\<close>.\<close>

definition replace_char :: "nat \<Rightarrow> nat \<Rightarrow> ustr \<Rightarrow> ustr" where
  "replace_char old new s = map (\<lambda>c. if c = old then new else c) s"

text \<open>\<open>sep.join(parts)\<close>.\<close>

fun join :: "ustr \<Rightarrow> ustr list \<Rightarrow> ustr" where
  "join sep [] = []"
| "join sep [x] = x"
| "join sep (x # y # ys) = x @ sep @ join sep (y # ys)"

text \<open>Truthiness of an optional string and of an optional integer.\<close>

fun truthy_str :: "ustr option \<Rightarrow> bool" where
  "truthy_str None \<longleftrightarrow> False"
| "truthy_str (Some s) \<longleftrightarrow> s \<noteq> []"

fun truthy_int :: "int option \<Rightarrow> bool" where
  "truthy_int None \<longleftrightarrow> False"
| "truthy_int (Some n) \<longleftrightarrow> n \<noteq> 0"

subsection \<open>Exceptions\<close>

datatype error = KeyError | TypeError | ValueError | AttributeError

subsection \<open>Regular expressions\<close>

text \<open>
  The fragment of \<open>re\<close> that the patterns of \<open>main.py\<close> use, with the matching
  order of Python's backtracking engine: alternatives left to right, \<open>?\<close>, \<open>*\<close>
  and \<open>+\<close> greedy. \<open>re_match\<close> lists every way a pattern matches a prefix of the
  subject, best first: each entry holds the unmatched rest and the captured groups.
  \<open>Digit\<close> is \<open>\d\<close>, \<open>Space\<close> is \<open>\s\<close>, \<open>Cls\<close> is a bracket expression.
\<close>

datatype atom = Chr nat | Range nat nat | Digit | Space

datatype regex =
    Eps
  | Atom atom
  | Cls "atom list"
  | Seq regex regex
  | Alt regex regex
  | Opt regex
  | Star regex
  | Grp nat regex

type_synonym captures = "(nat \<times> ustr) list"

definition case_fixes :: "nat \<Rightarrow> nat list" where
  "case_fixes c =
     (if c = 105 then [305] else if c = 115 then [383] else if c = 181 then [956]
      else if c = 305 then [105] else if c = 383 then [115] else [])"

text \<open>
  A literal under \<open>re.IGNORECASE\<close> matches a character whose lower-case form is the
  literal's, or one of the extra case pairs of the \<open>re\<close> module (dotless i, long s,
  Greek mu). Ranges are compared as written: the source has ranges only in patterns
  compiled without the flag.
\<close>

fun atom_match :: "bool \<Rightarrow> atom \<Rightarrow> nat \<Rightarrow> bool" where
  "atom_match ic (Chr l) c \<longleftrightarrow>
     (if ic then tolower c = tolower l \<or> tolower c \<in> set (case_fixes (tolower l))
      else c = l)"
| "atom_match ic (Range lo hi) c \<longleftrightarrow> lo \<le> c \<and> c \<le> hi"
| "atom_match ic Digit c \<longleftrightarrow> isdigit c"
| "atom_match ic Space c \<longleftrightarrow> isspace c"

fun re_match :: "bool \<Rightarrow> regex \<Rightarrow> ustr \<Rightarrow> captures \<Rightarrow> (ustr \<times> captures) list" where
  "re_match ic Eps s g = [(s, g)]"
| "re_match ic (Atom a) s g =
     (case s of [] \<Rightarrow> [] | c # t \<Rightarrow> if atom_match ic a c then [(t, g)] else [])"
| "re_match ic (Cls as) s g =
     (case s of [] \<Rightarrow> []
      | c # t \<Rightarrow> if list_ex (\<lambda>a. atom_match ic a c) as then [(t, g)] else [])"
| "re_match ic (Seq a b) s g =
     concat (map (\<lambda>(s', g'). re_match ic b s' g') (re_match ic a s g))"
| "re_match ic (Alt a b) s g = re_match ic a s g @ re_match ic b s g"
| "re_match ic (Opt a) s g = re_match ic a s g @ [(s, g)]"
| "re_match ic (Star a) s g =
     concat (map (\<lambda>(s', g'). re_match ic (Star a) s' g')
                 (filter (\<lambda>(s', g'). length s' < length s) (re_match ic a s g)))
     @ [(s, g)]"
| "re_match ic (Grp n a) s g =
     map (\<lambda>(s', g'). (s', (n, take (length s - length s') s) # g')) (re_match ic a s g)"

text \<open>
  \<open>re.search\<close>: the best match at the leftmost position that has one. The result
  is the matched text (group 0) and the captured groups; a group that took no part in
  the match has no entry, which is Python's \<open>None\<close>.
\<close>

type_synonym re_result = "ustr \<times> captures"

fun search :: "bool \<Rightarrow> regex \<Rightarrow> ustr \<Rightarrow> re_result option" where
  "search ic r [] =
     (case re_match ic r [] [] of [] \<Rightarrow> None | (s', g) # _ \<Rightarrow> Some ([], g))"
| "search ic r (c # t) =
     (case re_match ic r (c # t) [] of
        [] \<Rightarrow> search ic r t
      | (s', g) # _ \<Rightarrow> Some (take (length (c # t) - length s') (c # t), g))"

text \<open>\<open>re.fullmatch\<close>: the best match that consumes the whole subject.\<close>

definition fullmatch :: "bool \<Rightarrow> regex \<Rightarrow> ustr \<Rightarrow> re_result option" where
  "fullmatch ic r s =
     (case filter (\<lambda>(s', g). s' = []) (re_match ic r s []) of
        [] \<Rightarrow> None | (s', g) # _ \<Rightarrow> Some (s, g))"

definition group0 :: "re_result \<Rightarrow> ustr" where
  "group0 mt = fst mt"

definition group :: "nat \<Rightarrow> re_result \<Rightarrow> ustr option" where
  "group n mt = map_of (snd mt) n"

text \<open>Pattern builders: a literal word, \<open>r+\<close>, \<open>r{n}\<close>, \<open>r{lo,hi}\<close>, \<open>r{n,}\<close>.\<close>

definition ca :: "char \<Rightarrow> atom" where
  "ca c = Chr (of_char c)"

definition ch :: "char \<Rightarrow> regex" where
  "ch c = Atom (ca c)"

fun lit_cps :: "ustr \<Rightarrow> regex" where
  "lit_cps [] = Eps"
| "lit_cps [c] = Atom (Chr c)"
| "lit_cps (c # cs) = Seq (Atom (Chr c)) (lit_cps cs)"

definition lit :: "string \<Rightarrow> regex" where
  "lit w = lit_cps (str w)"

fun seqs :: "regex list \<Rightarrow> regex" where
  "seqs [] = Eps"
| "seqs [r] = r"
| "seqs (r # rs) = Seq r (seqs rs)"

fun alts :: "regex list \<Rightarrow> regex" where
  "alts [] = Cls []"
| "alts [r] = r"
| "alts (r # rs) = Alt r (alts rs)"

definition Plus :: "regex \<Rightarrow> regex" where
  "Plus r = Seq r (Star r)"

fun rep_n :: "nat \<Rightarrow> regex \<Rightarrow> regex" where
  "rep_n 0 r = Eps"
| "rep_n (Suc n) r = Seq r (rep_n n r)"

fun rep_upto :: "nat \<Rightarrow> regex \<Rightarrow> regex" where
  "rep_upto 0 r = Eps"
| "rep_upto (Suc n) r = Opt (Seq r (rep_upto n r))"

definition Rep :: "nat \<Rightarrow> nat \<Rightarrow> regex \<Rightarrow> regex" where
  "Rep lo hi r = Seq (rep_n lo r) (rep_upto (hi - lo) r)"

definition RepMin :: "nat \<Rightarrow> regex \<Rightarrow> regex" where
  "RepMin lo r = Seq (rep_n lo r) (Star r)"

text \<open>
  \<open>binds n r\<close>: every match of \<open>r\<close> captures group \<open>n\<close> (the group is not
  optional, and stands in every alternative).
\<close>

fun binds :: "nat \<Rightarrow> regex \<Rightarrow> bool" where
  "binds n Eps \<longleftrightarrow> False"
| "binds n (Atom a) \<longleftrightarrow> False"
| "binds n (Cls as) \<longleftrightarrow> False"
| "binds n (Seq a b) \<longleftrightarrow> binds n a \<or> binds n b"
| "binds n (Alt a b) \<longleftrightarrow> binds n a \<and> binds n b"
| "binds n (Opt a) \<longleftrightarrow> False"
| "binds n (Star a) \<longleftrightarrow> False"
| "binds n (Grp k a) \<longleftrightarrow> k = n \<or> binds n a"

subsection \<open>Numbers\<close>

text \<open>
  \<open>int(s)\<close> on a string: white space around, a sign, decimal digits with single
  underscores between them. Anything else raises \<open>ValueError\<close>, and so does a number
  of more than 4300 digits (the interpreter's conversion limit).
\<close>

definition digits_re :: regex where
  "digits_re = Seq (Atom Digit) (Star (Seq (Opt (ch CHR ''_'')) (Atom Digit)))"

definition sign_re :: regex where
  "sign_re = Cls [ca CHR ''+'', ca CHR ''-'']"

definition digits_value :: "ustr \<Rightarrow> nat" where
  "digits_value s = foldl (\<lambda>n c. 10 * n + (c - 48)) 0 (filter isdigit s)"

definition negative :: "ustr option \<Rightarrow> bool" where
  "negative sg \<longleftrightarrow> sg = Some (str ''-'')"

definition py_int :: "ustr \<Rightarrow> error + int" where
  "py_int s =
     (case fullmatch False (Seq (Opt (Grp 1 sign_re)) (Grp 2 digits_re)) (strip s) of
        None \<Rightarrow> Inl ValueError
      | Some mt \<Rightarrow>
          (case group 2 mt of
             None \<Rightarrow> Inl ValueError
           | Some ds \<Rightarrow>
               if length (filter isdigit ds) > 4300 then Inl ValueError
               else Inr (if negative (group 1 mt) then - int (digits_value ds)
                         else int (digits_value ds))))"

text \<open>
  A Python \<open>float\<close> is kept as the exact decimal value it was written as, or as one
  of the three special values; the rounding of the value to a binary double is not
  part of the model. \<open>float(s)\<close> accepts white space around, a sign, \<open>inf\<close>,
  \<open>infinity\<close> or \<open>nan\<close> in any case, or a decimal literal with an optional
  fraction and exponent, and raises \<open>ValueError\<close> on anything else.
\<close>

datatype pyfloat = Fin rat | PosInf | NegInf | NaN

text \<open>A word in either case, letter by letter: \<open>[iI][nN][fF]\<close>.\<close>

definition either_case :: "string \<Rightarrow> regex" where
  "either_case w = seqs (map (\<lambda>c. Cls [Chr (of_char c), Chr (of_char c - 32)]) w)"

definition float_re :: regex where
  "float_re =
     Seq (Opt (Grp 1 sign_re))
       (Alt (Grp 2 (alts [either_case ''infinity'', either_case ''inf'']))
       (Alt (Grp 3 (either_case ''nan''))
            (Seq (Alt (Seq (Grp 4 digits_re) (Opt (Seq (ch CHR ''.'') (Opt (Grp 5 digits_re)))))
                      (Seq (ch CHR ''.'') (Grp 5 digits_re)))
                 (Opt (seqs [Cls [ca CHR ''e'', ca CHR ''E''], Opt (Grp 6 sign_re),
                             Grp 7 digits_re])))))"

definition opt_digits :: "ustr option \<Rightarrow> ustr" where
  "opt_digits g = (case g of None \<Rightarrow> [] | Some ds \<Rightarrow> filter isdigit ds)"

definition scale10 :: "rat \<Rightarrow> int \<Rightarrow> rat" where
  "scale10 x e = (if 0 \<le> e then x * 10 ^ nat e else x / 10 ^ nat (- e))"

definition py_float :: "ustr \<Rightarrow> error + pyfloat" where
  "py_float s =
     (case fullmatch False float_re (strip s) of
        None \<Rightarrow> Inl ValueError
      | Some mt \<Rightarrow>
          if group 2 mt \<noteq> None then Inr (if negative (group 1 mt) then NegInf else PosInf)
          else if group 3 mt \<noteq> None then Inr NaN
          else
            let ip = opt_digits (group 4 mt);
                fp = opt_digits (group 5 mt);
                ex = int (digits_value (opt_digits (group 7 mt)));
                e = (if negative (group 6 mt) then - ex else ex) - int (length fp);
                v = scale10 (of_nat (digits_value (ip @ fp))) e
            in Inr (Fin (if negative (group 1 mt) then - v else v)))"

text \<open>\<open>statistics.mean\<close> of a non-empty list, and \<open>round(x, 2)\<close> (ties to even).\<close>

definition mean :: "rat list \<Rightarrow> rat" where
  "mean xs = sum_list xs / of_nat (length xs)"

definition round_half_even :: "rat \<Rightarrow> int" where
  "round_half_even y =
     (let f = \<lfloor>y\<rfloor>; d = y - of_int f
      in if d < 1 / 2 then f else if 1 / 2 < d then f + 1
         else if even f then f else f + 1)"

definition round2 :: "rat \<Rightarrow> rat" where
  "round2 x = of_int (round_half_even (x * 100)) / 100"

subsection \<open>Dates\<close>

text \<open>
  \<open>datetime.date(year, month, day)\<close> raises \<open>ValueError\<close> unless the fields name a
  day of the proleptic Gregorian calendar in the years 1 to 9999.
\<close>

datatype pydate = Date int int int

definition is_leap :: "int \<Rightarrow> bool" where
  "is_leap y \<longleftrightarrow> y mod 4 = 0 \<and> (y mod 100 \<noteq> 0 \<or> y mod 400 = 0)"

definition days_in_month :: "int \<Rightarrow> int \<Rightarrow> int" where
  "days_in_month y mo =
     (if mo = 2 then (if is_leap y then 29 else 28)
      else if mo = 4 \<or> mo = 6 \<or> mo = 9 \<or> mo = 11 then 30 else 31)"

definition date :: "int \<Rightarrow> int \<Rightarrow> int \<Rightarrow> error + pydate" where
  "date y mo d =
     (if 1 \<le> y \<and> y \<le> 9999 \<and> 1 \<le> mo \<and> mo \<le> 12 \<and> 1 \<le> d \<and> d \<le> days_in_month y mo
      then Inr (Date y mo d) else Inl ValueError)"

text \<open>
  \<open>date.strftime(format)\<close> has one required argument. The source calls it as
  \<open>.strftime()\<close>, with none, at all three of its call sites; that call raises
  \<open>TypeError\<close> before any formatting takes place.
\<close>

definition strftime :: "pydate \<Rightarrow> error + ustr" where
  "strftime d = Inl TypeError"

text \<open>
  \<open>datetime.strptime(s, "%d/%m/%Y").date()\<close>. The library turns the format into the
  pattern \<open>(3[0-1]|[1-2]\d|0[1-9]|[1-9]| [1-9])/(1[0-2]|0[1-9]|[1-9])/(\d\d\d\d)\<close>,
  matches it at the start of \<open>s\<close>, and raises \<open>ValueError\<close> when it does not match,
  when text remains after the match, or when the fields are not a date.
\<close>

definition strptime_re :: regex where
  "strptime_re =
     seqs [Grp 1 (alts [Seq (ch CHR ''3'') (Cls [Range 48 49]),
                        Seq (Cls [Range 49 50]) (Atom Digit),
                        Seq (ch CHR ''0'') (Cls [Range 49 57]),
                        Cls [Range 49 57],
                        Seq (ch CHR '' '') (Cls [Range 49 57])]),
           ch CHR ''/'',
           Grp 2 (alts [Seq (ch CHR ''1'') (Cls [Range 48 50]),
                        Seq (ch CHR ''0'') (Cls [Range 49 57]),
                        Cls [Range 49 57]]),
           ch CHR ''/'',
           Grp 3 (rep_n 4 (Atom Digit))]"

definition strptime :: "ustr \<Rightarrow> error + pydate" where
  "strptime s =
     (case re_match True strptime_re s [] of
        [] \<Rightarrow> Inl ValueError
      | (rest, g) # _ \<Rightarrow>
          if rest \<noteq> [] then Inl ValueError
          else date (int (digits_value (opt_digits (map_of g 3))))
                    (int (digits_value (opt_digits (map_of g 2))))
                    (int (digits_value (opt_digits (map_of g 1)))))"

section \<open>The block graph\<close>

text \<open>
  The Textract response is a JSON object whose \<open>Blocks\<close> entry lists the blocks.
  A key that may be absent from a JSON object is an optional field; \<open>BlockId\<close> is
  the key \<open>Id\<close>, \<open>RelType\<close> the key \<open>Type\<close>.
\<close>

record relationship =
  RelType :: "ustr option"
  Ids :: "ustr list option"

record block =
  BlockId :: "ustr option"
  BlockType :: "ustr option"
  Text :: "ustr option"
  Confidence :: "rat option"
  RowIndex :: "int option"
  ColumnIndex :: "int option"
  Relationships :: "relationship list option"

record textract_json =
  Blocks :: "block list option"

text \<open>\<open>d.get(key, default)\<close> and \<open>d[key]\<close>.\<close>

definition get_or :: "'a \<Rightarrow> 'a option \<Rightarrow> 'a" where
  "get_or d x = (case x of None \<Rightarrow> d | Some v \<Rightarrow> v)"

definition subscript :: "'a option \<Rightarrow> error + 'a" where
  "subscript x = (case x of None \<Rightarrow> Inl KeyError | Some v \<Rightarrow> Inr v)"

definition blocks_of :: "textract_json \<Rightarrow> block list" where
  "blocks_of data = get_or [] (Blocks data)"

section \<open>Records produced\<close>

datatype date_value = DateStr ustr | DateObj pydate

record InvoiceLineItem =
  description :: "ustr option"
  qty :: "pyfloat option"
  unit_price :: "pyfloat option"
  item_total :: "pyfloat option"

record Invoice =
  invoice_number :: "ustr option"
  issue_date :: "date_value option"
  due_date :: "date_value option"
  supplier_name :: "ustr option"
  currency :: "ustr option"
  invoice_total :: "pyfloat option"
  line_items :: "InvoiceLineItem list"
  warnings :: "ustr list"
  quality_score :: rat

definition new_Invoice :: Invoice where
  "new_Invoice =
     \<lparr>invoice_number = None, issue_date = None, due_date = None, supplier_name = None,
      currency = None, invoice_total = None, line_items = [], warnings = [],
      quality_score = 0\<rparr>"

record PrescriptionMedication =
  drug_name :: "ustr option"
  dosage_text :: "ustr option"
  frequency_text :: "ustr option"
  duration_days :: "int option"
  quantity :: "int option"

record Prescription =
  prescription_date :: "ustr option"
  prescriber_name :: "ustr option"
  prescriber_id :: "ustr option"
  language :: ustr
  medications :: "PrescriptionMedication list"
  rx_notes :: "ustr option"
  rx_warnings :: "ustr list"
  rx_quality_score :: rat

definition new_Prescription :: Prescription where
  "new_Prescription =
     \<lparr>prescription_date = None, prescriber_name = None, prescriber_id = None,
      language = str ''it'', medications = [], rx_notes = None, rx_warnings = [],
      rx_quality_score = 0\<rparr>"

definition new_Medication :: "ustr \<Rightarrow> PrescriptionMedication" where
  "new_Medication line =
     \<lparr>drug_name = Some line, dosage_text = None, frequency_text = None,
      duration_days = None, quantity = None\<rparr>"

section \<open>TextractNormalizer.calc_quality_score\<close>

definition coverage :: "nat \<Rightarrow> nat \<Rightarrow> rat" where
  "coverage required_fields_found total_required =
     (if total_required \<noteq> 0 then of_nat required_fields_found / of_nat total_required
      else 0)"

definition validation :: "rat \<Rightarrow> rat" where
  "validation cov = (if cov = 1 then 1 else 1 / 2)"

definition calc_quality_score :: "rat list \<Rightarrow> nat \<Rightarrow> nat \<Rightarrow> rat" where
  "calc_quality_score textract_confidences required_fields_found total_required =
     (let tex_conf = (if textract_confidences \<noteq> [] then mean textract_confidences else 0);
          cov = coverage required_fields_found total_required;
          score = 4 / 10 * tex_conf + 4 / 10 * cov + 2 / 10 * validation cov
      in round2 score)"

section \<open>TextractInvoiceParser\<close>

record ocr_line =
  line_text :: ustr
  line_confidence :: rat

text \<open>The dictionaries \<open>{"value": ..., "confidence": ...}\<close> that the finders return.\<close>

record 'a found =
  found_value :: 'a
  found_confidence :: rat

record found_total =
  total_value :: "pyfloat option"
  total_currency :: ustr
  total_confidence :: rat

subsection \<open>\<open>_extract_lines\<close>\<close>

fun invoice_lines_loop :: "block list \<Rightarrow> ocr_line list \<Rightarrow> ocr_line list" where
  "invoice_lines_loop [] lines = lines"
| "invoice_lines_loop (b # bs) lines =
     (if BlockType b = Some (str ''LINE'')
      then invoice_lines_loop bs
             (lines @ [\<lparr>line_text = strip (get_or [] (Text b)),
                        line_confidence = get_or 0 (Confidence b)\<rparr>])
      else invoice_lines_loop bs lines)"

definition invoice_extract_lines :: "textract_json \<Rightarrow> ocr_line list" where
  "invoice_extract_lines data = invoice_lines_loop (blocks_of data) []"

subsection \<open>\<open>_safe_float\<close>\<close>

definition safe_float :: "ustr \<Rightarrow> pyfloat option" where
  "safe_float val =
     (case py_float (replace_char (of_char CHR '','') (of_char CHR ''.'') val) of
        Inl e \<Rightarrow> None | Inr x \<Rightarrow> Some x)"

subsection \<open>\<open>_find_supplier_name\<close>, \<open>_find_invoice_number\<close>\<close>

definition supplier_re :: regex where
  "supplier_re =
     Grp 1 (alts [lit ''s.r.l.'', lit ''spa'', lit ''ltd'', lit ''inc'', lit ''marilab'',
                  lit ''company'', lit ''sede''])"

fun find_supplier_loop :: "ocr_line list \<Rightarrow> ustr found option" where
  "find_supplier_loop [] = None"
| "find_supplier_loop (line # lines) =
     (if search True supplier_re (line_text line) \<noteq> None
      then Some \<lparr>found_value = line_text line, found_confidence = line_confidence line\<rparr>
      else find_supplier_loop lines)"

definition find_supplier_name :: "ocr_line list \<Rightarrow> ustr found option" where
  "find_supplier_name lines = find_supplier_loop (take 5 lines)"

definition invoice_number_kw :: regex where
  "invoice_number_kw =
     Grp 1 (alts [lit ''numero documento'', lit ''fattura n'', lit ''invoice number'',
                  lit ''n.''])"

definition digits3_re :: regex where
  "digits3_re = RepMin 3 (Atom Digit)"

fun find_invoice_number :: "ocr_line list \<Rightarrow> ustr found option" where
  "find_invoice_number [] = None"
| "find_invoice_number (line # lines) =
     (if search True invoice_number_kw (line_text line) \<noteq> None
      then (case search False digits3_re (line_text line) of
              Some mt \<Rightarrow>
                Some \<lparr>found_value = group0 mt, found_confidence = line_confidence line\<rparr>
            | None \<Rightarrow> find_invoice_number lines)
      else find_invoice_number lines)"

subsection \<open>\<open>_find_date\<close>\<close>

definition issue_date_kw :: regex where
  "issue_date_kw = Grp 1 (alts [lit ''data documento'', lit ''issue date''])"

definition due_date_kw :: regex where
  "due_date_kw = Grp 1 (alts [lit ''scadenza'', lit ''due date''])"

definition slash_or_dash :: regex where
  "slash_or_dash = Cls [ca CHR ''/'', ca CHR ''-'']"

definition date_re :: regex where
  "date_re =
     Grp 1 (seqs [Rep 1 2 (Atom Digit), slash_or_dash, Rep 1 2 (Atom Digit), slash_or_dash,
                  Rep 2 4 (Atom Digit)])"

text \<open>\<open>datetime.strptime(match.group(1), "%d/%m/%Y")\<close>; a missing group is \<open>None\<close>.\<close>

definition strptime_group :: "re_result \<Rightarrow> error + pydate" where
  "strptime_group mt =
     (case group 1 mt of None \<Rightarrow> Inl TypeError | Some s \<Rightarrow> strptime s)"

text \<open>
  The keyword-gated loop. The \<open>try\<close> body is \<open>strptime(...).date().strftime()\<close>;
  \<open>except ValueError: pass\<close> goes on to the next line, any other exception leaves
  the function.
\<close>

definition gated_value :: "re_result \<Rightarrow> error + date_value" where
  "gated_value mt =
     (case strptime_group mt of
        Inl e \<Rightarrow> Inl e
      | Inr d \<Rightarrow> (case strftime d of Inl e \<Rightarrow> Inl e | Inr s \<Rightarrow> Inr (DateStr s)))"

fun find_date_gated :: "regex \<Rightarrow> ocr_line list \<Rightarrow> error + date_value found option" where
  "find_date_gated kw [] = Inr None"
| "find_date_gated kw (line # lines) =
     (if search True kw (line_text line) \<noteq> None
      then (case search False date_re (line_text line) of
              None \<Rightarrow> find_date_gated kw lines
            | Some mt \<Rightarrow>
                (case gated_value mt of
                   Inl e \<Rightarrow> if e = ValueError then find_date_gated kw lines else Inl e
                 | Inr v \<Rightarrow>
                     Inr (Some \<lparr>found_value = v,
                                found_confidence = line_confidence line\<rparr>)))
      else find_date_gated kw lines)"

text \<open>The fallback loop: the \<open>try\<close> body is \<open>strptime(...).date()\<close>.\<close>

definition fallback_value :: "re_result \<Rightarrow> error + date_value" where
  "fallback_value mt =
     (case strptime_group mt of Inl e \<Rightarrow> Inl e | Inr d \<Rightarrow> Inr (DateObj d))"

fun find_date_fallback :: "ocr_line list \<Rightarrow> error + date_value found option" where
  "find_date_fallback [] = Inr None"
| "find_date_fallback (line # lines) =
     (case search False date_re (line_text line) of
        None \<Rightarrow> find_date_fallback lines
      | Some mt \<Rightarrow>
          (case fallback_value mt of
             Inl e \<Rightarrow> if e = ValueError then find_date_fallback lines else Inl e
           | Inr v \<Rightarrow>
               Inr (Some \<lparr>found_value = v, found_confidence = line_confidence line\<rparr>)))"

definition find_date ::
  "regex \<Rightarrow> bool \<Rightarrow> ocr_line list \<Rightarrow> error + date_value found option" where
  "find_date keyword_pattern fallback lines =
     (case find_date_gated keyword_pattern lines of
        Inl e \<Rightarrow> Inl e
      | Inr (Some r) \<Rightarrow> Inr (Some r)
      | Inr None \<Rightarrow> if fallback then find_date_fallback lines else Inr None)"

subsection \<open>\<open>_find_total\<close>\<close>

definition total_kw :: regex where
  "total_kw = Grp 1 (alts [lit ''totale'', lit ''invoice total'', lit ''importo''])"

definition total_re :: regex where
  "total_re =
     seqs [Opt (Grp 1 (Cls [Chr euro, ca CHR ''$''])), Opt (Atom Space),
           Grp 2 (Plus (Cls [Digit, ca CHR ''.'', ca CHR '','']))]"

definition total_of_match :: "ocr_line \<Rightarrow> re_result \<Rightarrow> found_total" where
  "total_of_match line mt =
     (let currency = (if truthy_str (group 1 mt) then get_or [] (group 1 mt)
                      else str ''EUR'');
          amount = (case group 2 mt of None \<Rightarrow> None | Some a \<Rightarrow> safe_float a)
      in \<lparr>total_value = amount, total_currency = currency,
          total_confidence = line_confidence line\<rparr>)"

fun find_total_loop :: "ocr_line list \<Rightarrow> found_total option" where
  "find_total_loop [] = None"
| "find_total_loop (line # lines) =
     (if search True total_kw (line_text line) \<noteq> None
      then (case search False total_re (line_text line) of
              Some mt \<Rightarrow> Some (total_of_match line mt)
            | None \<Rightarrow> find_total_loop lines)
      else find_total_loop lines)"

definition find_total :: "ocr_line list \<Rightarrow> found_total option" where
  "find_total lines = find_total_loop (rev lines)"

subsection \<open>\<open>_get_text\<close> and \<open>_extract_line_items\<close>\<close>

text \<open>
  Python dictionaries with the keys in insertion order: \<open>block_map\<close> from block id
  to block, \<open>rows\<close> from row index to a dictionary from column index to cell text.
\<close>

type_synonym block_map = "(ustr \<times> block) list"
type_synonym table_row = "(int \<times> ustr) list"
type_synonym table_rows = "(int \<times> table_row) list"

text \<open>\<open>{b["Id"]: b for b in blocks}\<close>: a later block replaces an earlier one.\<close>

fun build_block_map :: "block list \<Rightarrow> block_map \<Rightarrow> error + block_map" where
  "build_block_map [] bm = Inr bm"
| "build_block_map (b # bs) bm =
     (case subscript (BlockId b) of
        Inl e \<Rightarrow> Inl e
      | Inr i \<Rightarrow> build_block_map bs (AList.update i b bm))"

definition is_word :: "block \<Rightarrow> bool" where
  "is_word word \<longleftrightarrow>
     BlockType word = Some (str ''WORD'') \<or>
     BlockType word = Some (str ''SELECTION_ELEMENT'')"

fun get_text_ids :: "block_map \<Rightarrow> ustr list \<Rightarrow> ustr list \<Rightarrow> error + ustr list" where
  "get_text_ids bm [] text = Inr text"
| "get_text_ids bm (cid # cids) text =
     (case subscript (map_of bm cid) of
        Inl e \<Rightarrow> Inl e
      | Inr word \<Rightarrow>
          get_text_ids bm cids
            (if is_word word then text @ [get_or [] (Text word)] else text))"

fun get_text_rels :: "block_map \<Rightarrow> relationship list \<Rightarrow> ustr list \<Rightarrow> error + ustr list" where
  "get_text_rels bm [] text = Inr text"
| "get_text_rels bm (rel # rels) text =
     (case subscript (RelType rel) of
        Inl e \<Rightarrow> Inl e
      | Inr ty \<Rightarrow>
          if ty = str ''CHILD''
          then (case subscript (Ids rel) of
                  Inl e \<Rightarrow> Inl e
                | Inr ids \<Rightarrow>
                    (case get_text_ids bm ids text of
                       Inl e \<Rightarrow> Inl e
                     | Inr text' \<Rightarrow> get_text_rels bm rels text'))
          else get_text_rels bm rels text)"

definition get_text :: "block \<Rightarrow> block_map \<Rightarrow> error + ustr" where
  "get_text cell bm =
     (case get_text_rels bm (get_or [] (Relationships cell)) [] of
        Inl e \<Rightarrow> Inl e
      | Inr text \<Rightarrow> Inr (strip (join (str '' '') text)))"

text \<open>\<open>rows.setdefault(row, {})[col] = text\<close>.\<close>

definition set_cell :: "int \<Rightarrow> int \<Rightarrow> ustr \<Rightarrow> table_rows \<Rightarrow> table_rows" where
  "set_cell row col text rows =
     AList.update row (AList.update col text (get_or [] (map_of rows row))) rows"

fun table_ids :: "block_map \<Rightarrow> ustr list \<Rightarrow> table_rows \<Rightarrow> error + table_rows" where
  "table_ids bm [] rows = Inr rows"
| "table_ids bm (cid # cids) rows =
     (case subscript (map_of bm cid) of
        Inl e \<Rightarrow> Inl e
      | Inr cell \<Rightarrow>
          (case subscript (BlockType cell) of
             Inl e \<Rightarrow> Inl e
           | Inr ty \<Rightarrow>
               if ty = str ''CELL''
               then (case subscript (RowIndex cell) of
                       Inl e \<Rightarrow> Inl e
                     | Inr row \<Rightarrow>
                         (case subscript (ColumnIndex cell) of
                            Inl e \<Rightarrow> Inl e
                          | Inr col \<Rightarrow>
                              (case get_text cell bm of
                                 Inl e \<Rightarrow> Inl e
                               | Inr text \<Rightarrow>
                                   table_ids bm cids (set_cell row col text rows))))
               else table_ids bm cids rows))"

fun table_rels :: "block_map \<Rightarrow> relationship list \<Rightarrow> table_rows \<Rightarrow> error + table_rows" where
  "table_rels bm [] rows = Inr rows"
| "table_rels bm (rel # rels) rows =
     (case subscript (RelType rel) of
        Inl e \<Rightarrow> Inl e
      | Inr ty \<Rightarrow>
          if ty = str ''CHILD''
          then (case subscript (Ids rel) of
                  Inl e \<Rightarrow> Inl e
                | Inr ids \<Rightarrow>
                    (case table_ids bm ids rows of
                       Inl e \<Rightarrow> Inl e
                     | Inr rows' \<Rightarrow> table_rels bm rels rows'))
          else table_rels bm rels rows)"

text \<open>\<open>row.get(col, "")\<close> and the line item of one row.\<close>

definition row_get :: "table_row \<Rightarrow> int \<Rightarrow> ustr" where
  "row_get row col = get_or [] (map_of row col)"

definition line_item_of_row :: "table_row \<Rightarrow> InvoiceLineItem" where
  "line_item_of_row row =
     \<lparr>description = Some (row_get row 1), qty = safe_float (row_get row 2),
      unit_price = safe_float (row_get row 3), item_total = safe_float (row_get row 4)\<rparr>"

text \<open>
  \<open>for r in sorted(rows.keys()): row = rows[r] ...\<close>, run over the entries of
  \<open>rows\<close> sorted by key.
\<close>

fun row_items :: "table_rows \<Rightarrow> InvoiceLineItem list \<Rightarrow> InvoiceLineItem list" where
  "row_items [] items = items"
| "row_items ((r, row) # rest) items =
     (if 4 \<le> length row then row_items rest (items @ [line_item_of_row row])
      else row_items rest items)"

fun line_items_loop ::
  "block_map \<Rightarrow> block list \<Rightarrow> InvoiceLineItem list \<Rightarrow> error + InvoiceLineItem list" where
  "line_items_loop bm [] items = Inr items"
| "line_items_loop bm (b # bs) items =
     (if BlockType b = Some (str ''TABLE'')
      then (case table_rels bm (get_or [] (Relationships b)) [] of
              Inl e \<Rightarrow> Inl e
            | Inr rows \<Rightarrow> line_items_loop bm bs (row_items (sort_key fst rows) items))
      else line_items_loop bm bs items)"

definition extract_line_items :: "textract_json \<Rightarrow> error + InvoiceLineItem list" where
  "extract_line_items data =
     (case build_block_map (blocks_of data) [] of
        Inl e \<Rightarrow> Inl e
      | Inr bm \<Rightarrow> line_items_loop bm (blocks_of data) [])"

subsection \<open>\<open>_collect_warnings\<close>\<close>

definition REQUIRED_FIELDS :: "ustr list" where
  "REQUIRED_FIELDS =
     [str ''invoice_number'', str ''issue_date'', str ''supplier_name'',
      str ''invoice_total'']"

text \<open>\<open>getattr(self.invoice, f) is None\<close> for the field names of \<open>Invoice\<close>.\<close>

definition attr_is_None :: "Invoice \<Rightarrow> ustr \<Rightarrow> bool" where
  "attr_is_None iv f \<longleftrightarrow>
     (if f = str ''invoice_number'' then invoice_number iv = None
      else if f = str ''issue_date'' then issue_date iv = None
      else if f = str ''due_date'' then due_date iv = None
      else if f = str ''supplier_name'' then supplier_name iv = None
      else if f = str ''currency'' then currency iv = None
      else if f = str ''invoice_total'' then invoice_total iv = None
      else False)"

fun missing_loop :: "Invoice \<Rightarrow> ustr list \<Rightarrow> ustr list \<Rightarrow> ustr list" where
  "missing_loop iv [] ws = ws"
| "missing_loop iv (f # fs) ws =
     (if attr_is_None iv f
      then missing_loop iv fs (ws @ [str ''Missing required field: '' @ f])
      else missing_loop iv fs ws)"

definition collect_warnings :: "Invoice \<Rightarrow> nat \<Rightarrow> ustr list" where
  "collect_warnings iv found_fields =
     (let ws = missing_loop iv REQUIRED_FIELDS []
      in if found_fields < length REQUIRED_FIELDS
         then ws @ [str ''Some key fields not extracted with high confidence'']
         else ws)"

subsection \<open>\<open>_parse_data\<close>\<close>

text \<open>
  The state of \<open>_parse_data\<close>: the invoice under construction and the two local
  variables. Each step below is one \<open>if\<close> block of the method.
\<close>

record parse_state =
  invoice :: Invoice
  confidences :: "rat list"
  found_fields :: nat

definition put_supplier :: "ustr found option \<Rightarrow> parse_state \<Rightarrow> parse_state" where
  "put_supplier supplier st =
     (case supplier of
        None \<Rightarrow> st
      | Some r \<Rightarrow>
          \<lparr>invoice = (invoice st)\<lparr>supplier_name := Some (found_value r)\<rparr>,
           confidences = confidences st @ [found_confidence r],
           found_fields = found_fields st + 1\<rparr>)"

definition put_invoice_number :: "ustr found option \<Rightarrow> parse_state \<Rightarrow> parse_state" where
  "put_invoice_number inv_num st =
     (case inv_num of
        None \<Rightarrow> st
      | Some r \<Rightarrow>
          \<lparr>invoice = (invoice st)\<lparr>invoice_number := Some (found_value r)\<rparr>,
           confidences = confidences st @ [found_confidence r],
           found_fields = found_fields st + 1\<rparr>)"

definition put_issue_date :: "date_value found option \<Rightarrow> parse_state \<Rightarrow> parse_state" where
  "put_issue_date issue st =
     (case issue of
        None \<Rightarrow> st
      | Some r \<Rightarrow>
          \<lparr>invoice = (invoice st)\<lparr>issue_date := Some (found_value r)\<rparr>,
           confidences = confidences st @ [found_confidence r],
           found_fields = found_fields st + 1\<rparr>)"

definition put_due_date :: "date_value found option \<Rightarrow> parse_state \<Rightarrow> parse_state" where
  "put_due_date due st =
     (case due of
        None \<Rightarrow> st
      | Some r \<Rightarrow>
          \<lparr>invoice = (invoice st)\<lparr>due_date := Some (found_value r)\<rparr>,
           confidences = confidences st @ [found_confidence r],
           found_fields = found_fields st\<rparr>)"

definition put_total :: "found_total option \<Rightarrow> parse_state \<Rightarrow> parse_state" where
  "put_total tot st =
     (case tot of
        None \<Rightarrow> st
      | Some r \<Rightarrow>
          \<lparr>invoice = (invoice st)\<lparr>invoice_total := total_value r,
                                   currency := Some (total_currency r)\<rparr>,
           confidences = confidences st @ [total_confidence r],
           found_fields = found_fields st + 1\<rparr>)"

definition finish :: "InvoiceLineItem list \<Rightarrow> parse_state \<Rightarrow> parse_state" where
  "finish items st =
     (let inv1 = (invoice st)\<lparr>line_items := items\<rparr>;
          inv2 = inv1\<lparr>quality_score :=
                        calc_quality_score (confidences st) (found_fields st)
                          (length REQUIRED_FIELDS)\<rparr>;
          inv3 = inv2\<lparr>warnings := collect_warnings inv2 (found_fields st)\<rparr>
      in st\<lparr>invoice := inv3\<rparr>)"

definition invoice_parse_data :: "textract_json \<Rightarrow> ocr_line list \<Rightarrow> error + parse_state" where
  "invoice_parse_data data lines =
     (let st0 = \<lparr>invoice = new_Invoice, confidences = [], found_fields = 0\<rparr>;
          st1 = put_supplier (find_supplier_name lines) st0;
          st2 = put_invoice_number (find_invoice_number lines) st1
      in case find_date issue_date_kw True lines of
           Inl e \<Rightarrow> Inl e
         | Inr issue \<Rightarrow>
             (case find_date due_date_kw False lines of
                Inl e \<Rightarrow> Inl e
              | Inr due \<Rightarrow>
                  (let st3 = put_issue_date issue st2;
                       st4 = put_due_date due st3;
                       st5 = put_total (find_total lines) st4
                   in case extract_line_items data of
                        Inl e \<Rightarrow> Inl e
                      | Inr items \<Rightarrow> Inr (finish items st5))))"

text \<open>
  \<open>TextractInvoiceParser(textract_json)\<close> flattens the lines and runs \<open>_parse_data\<close>;
  \<open>normalize_invoice\<close> returns the parser's invoice.
\<close>

definition TextractInvoiceParser :: "textract_json \<Rightarrow> error + parse_state" where
  "TextractInvoiceParser textract_json =
     invoice_parse_data textract_json (invoice_extract_lines textract_json)"

definition normalize_invoice :: "textract_json \<Rightarrow> error + Invoice" where
  "normalize_invoice textract_json =
     (case TextractInvoiceParser textract_json of
        Inl e \<Rightarrow> Inl e
      | Inr st \<Rightarrow> Inr (invoice st))"

section \<open>TextractPrescriptionParser\<close>

subsection \<open>\<open>_extract_lines\<close>\<close>

fun prescription_lines_loop :: "block list \<Rightarrow> ustr list \<Rightarrow> ustr list" where
  "prescription_lines_loop [] lines = lines"
| "prescription_lines_loop (b # bs) lines =
     (if BlockType b = Some (str ''LINE'') \<and> Text b \<noteq> None
      then prescription_lines_loop bs (lines @ [get_or [] (Text b)])
      else prescription_lines_loop bs lines)"

definition prescription_extract_lines :: "textract_json \<Rightarrow> ustr list" where
  "prescription_extract_lines data = prescription_lines_loop (blocks_of data) []"

subsection \<open>\<open>_parse_date\<close>\<close>

definition digits_1_2 :: regex where "digits_1_2 = Rep 1 2 (Atom Digit)"
definition digits_2_4 :: regex where "digits_2_4 = Rep 2 4 (Atom Digit)"
definition digits_plus :: regex where "digits_plus = Plus (Atom Digit)"
definition spaces :: regex where "spaces = Star (Atom Space)"

definition date_sep :: regex where
  "date_sep = Cls [ca CHR ''/'', ca CHR ''-'', ca CHR ''.'']"

definition date_patterns :: "regex list" where
  "date_patterns =
     [seqs [Grp 1 digits_1_2, date_sep, Grp 2 digits_1_2, date_sep, Grp 3 digits_2_4],
      seqs [Grp 1 digits_1_2, Plus (Atom Space),
            Grp 2 (Plus (Cls [Range 97 122, Range 65 90])), Plus (Atom Space),
            Grp 3 digits_2_4]]"

definition month_map :: "(ustr \<times> int) list" where
  "month_map =
     [(str ''gennaio'', 1), (str ''febbraio'', 2), (str ''marzo'', 3), (str ''aprile'', 4),
      (str ''maggio'', 5), (str ''giugno'', 6), (str ''luglio'', 7), (str ''agosto'', 8),
      (str ''settembre'', 9), (str ''ottobre'', 10), (str ''novembre'', 11),
      (str ''dicembre'', 12)]"

text \<open>\<open>int(g)\<close> for a group of a match; \<open>int(None)\<close> raises \<open>TypeError\<close>.\<close>

definition int_of_group :: "nat \<Rightarrow> re_result \<Rightarrow> error + int" where
  "int_of_group n mt = (case group n mt of None \<Rightarrow> Inl TypeError | Some s \<Rightarrow> py_int s)"

text \<open>\<open>date(year, month, day).strftime()\<close>.\<close>

definition date_strftime :: "int \<Rightarrow> int \<Rightarrow> int \<Rightarrow> error + ustr" where
  "date_strftime y mo d = (case date y mo d of Inl e \<Rightarrow> Inl e | Inr dt \<Rightarrow> strftime dt)"

text \<open>
  The body of the \<open>try\<close> for one matched pattern. \<open>Inr (Some s)\<close> is \<open>return s\<close>;
  \<open>Inr None\<close> is leaving the body without a \<open>return\<close> (no such month name).
\<close>

definition parse_date_try :: "ustr \<Rightarrow> re_result \<Rightarrow> error + ustr option" where
  "parse_date_try text mt =
     (if str_in (str ''/'') text \<or> str_in (str ''-'') text \<or> str_in (str ''.'') text
      then
        (case int_of_group 1 mt of Inl e \<Rightarrow> Inl e | Inr day \<Rightarrow>
        (case int_of_group 2 mt of Inl e \<Rightarrow> Inl e | Inr month \<Rightarrow>
        (case int_of_group 3 mt of Inl e \<Rightarrow> Inl e | Inr year \<Rightarrow>
           (let year' = (if year < 100 then year + (if year < 50 then 2000 else 1900)
                         else year)
            in case date_strftime year' month day of
                 Inl e \<Rightarrow> Inl e | Inr s \<Rightarrow> Inr (Some s)))))
      else
        (case int_of_group 1 mt of Inl e \<Rightarrow> Inl e | Inr day \<Rightarrow>
        (case int_of_group 3 mt of Inl e \<Rightarrow> Inl e | Inr year \<Rightarrow>
        (case group 2 mt of None \<Rightarrow> Inl AttributeError | Some month_str \<Rightarrow>
           (case map_of month_map (lower month_str) of
              None \<Rightarrow> Inr None
            | Some month \<Rightarrow>
                (case date_strftime year month day of
                   Inl e \<Rightarrow> Inl e | Inr s \<Rightarrow> Inr (Some s)))))))"

text \<open>\<open>except (ValueError, TypeError): continue\<close>.\<close>

fun parse_date_loop :: "regex list \<Rightarrow> ustr \<Rightarrow> error + ustr option" where
  "parse_date_loop [] text = Inr None"
| "parse_date_loop (pattern # patterns) text =
     (case search False pattern text of
        None \<Rightarrow> parse_date_loop patterns text
      | Some mt \<Rightarrow>
          (case parse_date_try text mt of
             Inl e \<Rightarrow>
               if e = ValueError \<or> e = TypeError then parse_date_loop patterns text
               else Inl e
           | Inr None \<Rightarrow> parse_date_loop patterns text
           | Inr (Some s) \<Rightarrow> Inr (Some s)))"

definition parse_date :: "ustr \<Rightarrow> error + ustr option" where
  "parse_date text = parse_date_loop date_patterns text"

subsection \<open>\<open>_parse_quantity\<close>, \<open>_parse_duration\<close>\<close>

text \<open>
  Both methods run the same loop over their pattern list: the first pattern that
  matches and whose group 1 converts with \<open>int\<close> gives the result;
  \<open>except ValueError: continue\<close>.
\<close>

fun first_int :: "regex list \<Rightarrow> ustr \<Rightarrow> error + int option" where
  "first_int [] text = Inr None"
| "first_int (pattern # patterns) text =
     (case search True pattern text of
        None \<Rightarrow> first_int patterns text
      | Some mt \<Rightarrow>
          (case int_of_group 1 mt of
             Inl e \<Rightarrow> if e = ValueError then first_int patterns text else Inl e
           | Inr n \<Rightarrow> Inr (Some n)))"

definition opt_colon :: regex where
  "opt_colon = Opt (Cls [ca CHR '':''])"

definition quantity_patterns :: "regex list" where
  "quantity_patterns =
     [seqs [lit ''qta'', spaces, opt_colon, spaces, Grp 1 digits_plus],
      seqs [lit ''n.'', spaces, Grp 1 digits_plus],
      seqs [lit ''quantit'', Cls [Chr a_grave, ca CHR ''a''], spaces, opt_colon, spaces,
            Grp 1 digits_plus],
      seqs [Grp 1 digits_plus, spaces,
            Grp 2 (alts [lit ''compresse'', lit ''cp'', lit ''fiale'', lit ''fl'', lit ''ml'',
                         lit ''g'', lit ''mg'', lit_cps [micro, of_char CHR ''g'']])]]"

definition parse_quantity :: "ustr \<Rightarrow> error + int option" where
  "parse_quantity text = first_int quantity_patterns text"

definition duration_patterns :: "regex list" where
  "duration_patterns =
     [seqs [lit ''per'', spaces, Grp 1 digits_plus, spaces, lit ''giorni''],
      seqs [Grp 1 digits_plus, spaces, lit ''giorni''],
      seqs [lit ''durata'', spaces, opt_colon, spaces, Grp 1 digits_plus, spaces, lit ''g'']]"

definition parse_duration :: "ustr \<Rightarrow> error + int option" where
  "parse_duration text = first_int duration_patterns text"

subsection \<open>\<open>_parse_frequency\<close>, \<open>_parse_dosage\<close>\<close>

definition frequency_patterns :: "regex list" where
  "frequency_patterns =
     [seqs [Grp 1 digits_plus, spaces, lit ''volte'', spaces, lit ''al'', spaces,
            lit ''giorno''],
      seqs [Grp 1 digits_plus, spaces, Cls [ca CHR ''x'', ca CHR ''X''], spaces, lit ''die''],
      seqs [lit ''ogni'', spaces, Grp 1 digits_plus, spaces, lit ''ore''],
      seqs [Grp 1 digits_plus, spaces, Cls [ca CHR ''c'', ca CHR ''p''], spaces, lit ''al'',
            spaces, lit_cps [of_char CHR ''d'', i_grave]]]"

text \<open>The f-string \<open>f"{match.group(1)} volte al giorno"\<close> raises nothing.\<close>

definition format_group :: "ustr option \<Rightarrow> ustr" where
  "format_group g = (case g of None \<Rightarrow> str ''None'' | Some s \<Rightarrow> s)"

fun parse_frequency_loop :: "regex list \<Rightarrow> ustr \<Rightarrow> ustr option" where
  "parse_frequency_loop [] text = None"
| "parse_frequency_loop (pattern # patterns) text =
     (case search True pattern text of
        None \<Rightarrow> parse_frequency_loop patterns text
      | Some mt \<Rightarrow> Some (format_group (group 1 mt) @ str '' volte al giorno''))"

definition parse_frequency :: "ustr \<Rightarrow> ustr option" where
  "parse_frequency text = parse_frequency_loop frequency_patterns text"

definition amount_re :: regex where
  "amount_re =
     seqs [digits_plus, Opt (Cls [ca CHR ''.'', ca CHR '','']), Star (Atom Digit)]"

definition unit_re :: regex where
  "unit_re = alts [lit ''mg'', lit ''ml'', lit ''g'', lit_cps [micro, of_char CHR ''g'']]"

definition dosage_patterns :: "regex list" where
  "dosage_patterns =
     [seqs [Grp 1 amount_re, spaces, Grp 2 unit_re],
      seqs [lit ''dose'', spaces, opt_colon, spaces, Grp 1 amount_re, spaces, Grp 2 unit_re]]"

definition dosage_of_match :: "re_result \<Rightarrow> error + ustr" where
  "dosage_of_match mt =
     (case group 1 mt of
        None \<Rightarrow> Inl AttributeError
      | Some g \<Rightarrow>
          (let amount = replace_char (of_char CHR '','') (of_char CHR ''.'') g;
               unit = format_group (group 2 mt)
           in Inr (amount @ str '' '' @ unit)))"

fun parse_dosage_loop :: "regex list \<Rightarrow> ustr \<Rightarrow> error + ustr option" where
  "parse_dosage_loop [] text = Inr None"
| "parse_dosage_loop (pattern # patterns) text =
     (case search True pattern text of
        None \<Rightarrow> parse_dosage_loop patterns text
      | Some mt \<Rightarrow>
          (case dosage_of_match mt of
             Inl e \<Rightarrow> if e = ValueError then parse_dosage_loop patterns text else Inl e
           | Inr s \<Rightarrow> Inr (Some s)))"

definition parse_dosage :: "ustr \<Rightarrow> error + ustr option" where
  "parse_dosage text = parse_dosage_loop dosage_patterns text"

subsection \<open>\<open>_calculate_quality_score\<close>\<close>

definition point :: "bool \<Rightarrow> rat" where
  "point b = (if b then 1 else 0)"

definition calculate_quality_score :: "Prescription \<Rightarrow> rat" where
  "calculate_quality_score p =
     (let score = 0
            + point (truthy_str (prescription_date p))
            + point (truthy_str (prescriber_name p))
            + point (truthy_str (prescriber_id p))
            + point (medications p \<noteq> [])
            + point (list_ex (\<lambda>m. truthy_str (drug_name m)) (medications p));
          total_possible = 5
      in min (score / total_possible) 1)"

subsection \<open>\<open>_parse_data\<close>\<close>

text \<open>The first loop: the date, from the first line that has the keyword and a date.\<close>

fun find_prescription_date :: "ustr list \<Rightarrow> error + ustr option" where
  "find_prescription_date [] = Inr None"
| "find_prescription_date (line # lines) =
     (if str_in (str ''data'') (lower line)
      then (case parse_date line of
              Inl e \<Rightarrow> Inl e
            | Inr date_obj \<Rightarrow>
                if truthy_str date_obj then Inr date_obj
                else find_prescription_date lines)
      else find_prescription_date lines)"

text \<open>The second loop: prescriber name and id, the last matching line wins.\<close>

definition name_terms :: "ustr list" where
  "name_terms = [str ''dott'', str ''dr.'', str ''medico'', str ''farmacista'']"

definition id_terms :: "ustr list" where
  "id_terms = [str ''codice fiscale'', str ''cf:'', str ''id'']"

definition id_re :: regex where
  "id_re = Rep 11 16 (Cls [Range 65 90, Range 48 57])"

definition prescriber_step :: "ustr \<Rightarrow> Prescription \<Rightarrow> Prescription" where
  "prescriber_step line p =
     (let p1 = (if any_in name_terms (lower line) then p\<lparr>prescriber_name := Some line\<rparr>
                else p)
      in if any_in id_terms (lower line)
         then (case search False id_re line of
                 Some id_match \<Rightarrow> p1\<lparr>prescriber_id := Some (group0 id_match)\<rparr>
               | None \<Rightarrow> p1)
         else p1)"

fun prescriber_loop :: "ustr list \<Rightarrow> Prescription \<Rightarrow> Prescription" where
  "prescriber_loop [] p = p"
| "prescriber_loop (line # lines) p = prescriber_loop lines (prescriber_step line p)"

text \<open>
  The third loop: a line that is upper case or names a pharmaceutical form opens a
  medication; any other line, while a medication is open, is offered to the four
  extractors whose attribute is still falsy.
\<close>

definition form_terms :: "ustr list" where
  "form_terms =
     [str ''compresse'', str ''capsule'', str ''fiale'', str ''crema'', str ''pomata'']"

definition is_med_header :: "ustr \<Rightarrow> bool" where
  "is_med_header line \<longleftrightarrow> isupper line \<or> any_in form_terms (lower line)"

definition continue_med :: "PrescriptionMedication \<Rightarrow> ustr \<Rightarrow> error + PrescriptionMedication" where
  "continue_med m line =
     (case (if \<not> truthy_str (dosage_text m) then parse_dosage line
            else Inr (dosage_text m)) of
        Inl e \<Rightarrow> Inl e
      | Inr dosage \<Rightarrow>
          (let frequency = (if \<not> truthy_str (frequency_text m) then parse_frequency line
                            else frequency_text m)
           in case (if \<not> truthy_int (duration_days m) then parse_duration line
                    else Inr (duration_days m)) of
                Inl e \<Rightarrow> Inl e
              | Inr duration \<Rightarrow>
                  (case (if \<not> truthy_int (quantity m) then parse_quantity line
                         else Inr (quantity m)) of
                     Inl e \<Rightarrow> Inl e
                   | Inr qty' \<Rightarrow>
                       Inr (m\<lparr>dosage_text := dosage, frequency_text := frequency,
                              duration_days := duration, quantity := qty'\<rparr>))))"

fun med_loop ::
  "ustr list \<Rightarrow> PrescriptionMedication option \<Rightarrow> PrescriptionMedication list \<Rightarrow>
   error + PrescriptionMedication option \<times> PrescriptionMedication list" where
  "med_loop [] current_med meds = Inr (current_med, meds)"
| "med_loop (line # lines) current_med meds =
     (if is_med_header line
      then med_loop lines (Some (new_Medication line))
             (case current_med of None \<Rightarrow> meds | Some m \<Rightarrow> meds @ [m])
      else (case current_med of
              None \<Rightarrow> med_loop lines None meds
            | Some m \<Rightarrow>
                (case continue_med m line of
                   Inl e \<Rightarrow> Inl e
                 | Inr m' \<Rightarrow> med_loop lines (Some m') meds)))"

text \<open>The fourth loop: the lines that are none of the extracted values.\<close>

definition is_leftover :: "Prescription \<Rightarrow> ustr \<Rightarrow> bool" where
  "is_leftover p line \<longleftrightarrow>
     (\<not> truthy_str (prescription_date p) \<or>
        \<not> str_in line (get_or [] (prescription_date p))) \<and>
     (\<not> truthy_str (prescriber_name p) \<or> Some line \<noteq> prescriber_name p) \<and>
     (\<not> truthy_str (prescriber_id p) \<or> Some line \<noteq> prescriber_id p) \<and>
     \<not> list_ex (\<lambda>m. Some line = drug_name m)
          (filter (\<lambda>m. truthy_str (drug_name m)) (medications p))"

definition add_warning :: "bool \<Rightarrow> string \<Rightarrow> Prescription \<Rightarrow> Prescription" where
  "add_warning missing w p = (if missing then p\<lparr>rx_warnings := rx_warnings p @ [str w]\<rparr> else p)"

definition prescription_parse_data :: "ustr list \<Rightarrow> error + Prescription" where
  "prescription_parse_data lines =
     (case find_prescription_date lines of
        Inl e \<Rightarrow> Inl e
      | Inr date_obj \<Rightarrow>
          (let p1 = new_Prescription\<lparr>prescription_date := date_obj\<rparr>;
               p2 = prescriber_loop lines p1
           in case med_loop lines None [] of
                Inl e \<Rightarrow> Inl e
              | Inr (current_med, meds) \<Rightarrow>
                  (let p3 = p2\<lparr>medications :=
                                   (case current_med of None \<Rightarrow> meds
                                    | Some m \<Rightarrow> meds @ [m])\<rparr>;
                       leftover = filter (is_leftover p3) lines;
                       p4 = (if leftover \<noteq> []
                             then p3\<lparr>rx_notes := Some (join (str '' '') leftover)\<rparr>
                             else p3);
                       p5 = add_warning (\<not> truthy_str (prescription_date p4))
                              ''Data della prescrizione non trovata'' p4;
                       p6 = add_warning (\<not> truthy_str (prescriber_name p5))
                              ''Nome del prescrittore non trovato'' p5;
                       p7 = add_warning (medications p6 = [])
                              ''Nessun farmaco trovato nella prescrizione'' p6
                   in Inr (p7\<lparr>rx_quality_score := calculate_quality_score p7\<rparr>))))"

definition normalize_prescription :: "textract_json \<Rightarrow> error + Prescription" where
  "normalize_prescription textract_json =
     prescription_parse_data (prescription_extract_lines textract_json)"

section \<open>Table rows, as the specification describes them\<close>

text \<open>
  The specification speaks of the cells of a table: the CELL blocks reached through the
  TABLE's CHILD relationships, each with a row index, a column index and a text.
  \<open>table_cells\<close> lists them in relationship order; \<open>row_columns\<close> are the populated
  columns of a row, \<open>cell_text\<close> the text of the last cell at a position (empty when
  there is none), \<open>line_item_of_cells\<close> the line item read off columns 1 to 4 of a
  row. \<open>put_cells\<close> stores a list of cells into \<open>rows\<close> one by one, and
  \<open>describes\<close> says that a \<open>rows\<close> dictionary holds exactly those cells.
\<close>

type_synonym cell = "int \<times> int \<times> ustr"

fun cell_triples :: "block_map \<Rightarrow> ustr list \<Rightarrow> cell list" where
  "cell_triples bm [] = []"
| "cell_triples bm (cid # cids) =
     (case map_of bm cid of
        None \<Rightarrow> []
      | Some b \<Rightarrow>
          if BlockType b = Some (str ''CELL'')
          then (case (RowIndex b, ColumnIndex b, get_text b bm) of
                  (Some r, Some c, Inr x) \<Rightarrow> [(r, c, x)]
                | _ \<Rightarrow> [])
          else [])
     @ cell_triples bm cids"

definition child_ids :: "relationship \<Rightarrow> ustr list" where
  "child_ids rel = (if RelType rel = Some (str ''CHILD'') then get_or [] (Ids rel) else [])"

definition table_cells :: "block_map \<Rightarrow> block \<Rightarrow> cell list" where
  "table_cells bm t =
     concat (map (\<lambda>rel. cell_triples bm (child_ids rel)) (get_or [] (Relationships t)))"

definition row_columns :: "cell list \<Rightarrow> int \<Rightarrow> int list" where
  "row_columns cells r = remdups (map (\<lambda>(r', c, x). c) (filter (\<lambda>(r', c, x). r' = r) cells))"

definition cell_text :: "cell list \<Rightarrow> int \<Rightarrow> int \<Rightarrow> ustr" where
  "cell_text cells r c =
     (case rev (filter (\<lambda>(r', c', x). r' = r \<and> c' = c) cells) of
        [] \<Rightarrow> []
      | (r', c', x) # earlier \<Rightarrow> x)"

definition line_item_of_cells :: "cell list \<Rightarrow> int \<Rightarrow> InvoiceLineItem" where
  "line_item_of_cells cells r =
     \<lparr>description = Some (cell_text cells r 1), qty = safe_float (cell_text cells r 2),
      unit_price = safe_float (cell_text cells r 3),
      item_total = safe_float (cell_text cells r 4)\<rparr>"

text \<open>
  The rows of a table with at least four populated columns, in ascending order, and the
  line items they give; \<open>is_table\<close> is the test \<open>block.get("BlockType") == "TABLE"\<close>.
\<close>

definition full_rows :: "cell list \<Rightarrow> int list" where
  "full_rows cells =
     sort (remdups (filter (\<lambda>r. 4 \<le> length (row_columns cells r))
                           (map (\<lambda>(r, c, x). r) cells)))"

definition table_line_items :: "block_map \<Rightarrow> block \<Rightarrow> InvoiceLineItem list" where
  "table_line_items bm t =
     map (line_item_of_cells (table_cells bm t)) (full_rows (table_cells bm t))"

definition is_table :: "block \<Rightarrow> bool" where
  "is_table b \<longleftrightarrow> BlockType b = Some (str ''TABLE'')"

definition put_cells :: "cell list \<Rightarrow> table_rows \<Rightarrow> table_rows" where
  "put_cells cells rows = fold (\<lambda>(r, c, x). set_cell r c x) cells rows"

definition describes :: "cell list \<Rightarrow> table_rows \<Rightarrow> bool" where
  "describes cells rows \<longleftrightarrow>
     distinct (map fst rows) \<and>
     fst ` set rows = (\<lambda>(r, c, x). r) ` set cells \<and>
     (\<forall>r row. map_of rows r = Some row \<longrightarrow>
        distinct (map fst row) \<and> set (map fst row) = set (row_columns cells r) \<and>
        (\<forall>c. row_get row c = cell_text cells r c))"

section \<open>Attributes kept by a continuation line\<close>

text \<open>
  \<open>kept m m'\<close>: the drug name is unchanged and every attribute that is truthy in
  \<open>m\<close> has the same value in \<open>m'\<close>. \<open>text_ok\<close>: neither text attribute is the
  empty string.
\<close>

definition text_ok :: "PrescriptionMedication \<Rightarrow> bool" where
  "text_ok m \<longleftrightarrow> dosage_text m \<noteq> Some [] \<and> frequency_text m \<noteq> Some []"

definition kept :: "PrescriptionMedication \<Rightarrow> PrescriptionMedication \<Rightarrow> bool" where
  "kept m m' \<longleftrightarrow>
     drug_name m' = drug_name m \<and>
     (truthy_str (dosage_text m) \<longrightarrow> dosage_text m' = dosage_text m) \<and>
     (truthy_str (frequency_text m) \<longrightarrow> frequency_text m' = frequency_text m) \<and>
     (truthy_int (duration_days m) \<longrightarrow> duration_days m' = duration_days m) \<and>
     (truthy_int (quantity m) \<longrightarrow> quantity m' = quantity m) \<and>
     (text_ok m \<longrightarrow> text_ok m')"

section \<open>Example documents\<close>

text \<open>
  \<open>LINE i t c\<close> is a LINE block with id \<open>i\<close>, text \<open>t\<close> and confidence \<open>c\<close>;
  \<open>TEXT_LINE\<close> has no confidence, \<open>BARE_LINE\<close> neither text nor confidence.
\<close>

definition LINE :: "string \<Rightarrow> ustr \<Rightarrow> rat \<Rightarrow> block" where
  "LINE i t c =
     \<lparr>BlockId = Some (str i), BlockType = Some (str ''LINE''), Text = Some t,
      Confidence = Some c, RowIndex = None, ColumnIndex = None, Relationships = None\<rparr>"

definition TEXT_LINE :: "string \<Rightarrow> ustr \<Rightarrow> block" where
  "TEXT_LINE i t =
     \<lparr>BlockId = Some (str i), BlockType = Some (str ''LINE''), Text = Some t,
      Confidence = None, RowIndex = None, ColumnIndex = None, Relationships = None\<rparr>"

definition BARE_LINE :: "string \<Rightarrow> block" where
  "BARE_LINE i =
     \<lparr>BlockId = Some (str i), BlockType = Some (str ''LINE''), Text = None,
      Confidence = None, RowIndex = None, ColumnIndex = None, Relationships = None\<rparr>"

definition document :: "block list \<Rightarrow> textract_json" where
  "document bs = \<lparr>Blocks = Some bs\<rparr>"

definition totale_text :: ustr where
  "totale_text = str ''TOTALE '' @ [euro] @ str '' 1.234,56''"

definition supplier_only_doc :: textract_json where
  "supplier_only_doc = document [LINE ''1'' (str ''ACME SPA'') (982 / 10)]"

definition due_date_doc :: textract_json where
  "due_date_doc =
     document [LINE ''1'' (str ''Invoice number 12345'') 99,
               LINE ''2'' (str ''Due date 30/04/2024'') 99]"

definition issue_date_doc :: textract_json where
  "issue_date_doc = document [LINE ''1'' (str ''Data documento 15/03/2024'') 99]"

definition rx_date_doc :: textract_json where
  "rx_date_doc = document [TEXT_LINE ''1'' (str ''Data: 15 marzo 2024'')]"

definition totale_doc :: textract_json where
  "totale_doc = document [LINE ''1'' totale_text (982 / 10)]"

definition four_fields_doc :: textract_json where
  "four_fields_doc =
     document [LINE ''1'' (str ''ACME SPA'') 99,
               LINE ''2'' (str ''Fattura n 12345'') 99,
               LINE ''3'' (str ''15/03/2024'') 99,
               LINE ''4'' totale_text (982 / 10)]"

definition medication_doc :: textract_json where
  "medication_doc =
     document [TEXT_LINE ''1'' (str ''AMOXICILLINA''),
               TEXT_LINE ''2'' (str ''500 mg''),
               TEXT_LINE ''3'' (str ''2 volte al giorno''),
               TEXT_LINE ''4'' (str ''per 7 giorni''),
               TEXT_LINE ''5'' (str ''ACICLOVIR CREMA''),
               TEXT_LINE ''6'' (str ''applicare 2 volte al d'' @ [i_grave])]"

definition bare_line_doc :: textract_json where
  "bare_line_doc = document [BARE_LINE ''1'']"

definition zero_days_doc :: textract_json where
  "zero_days_doc =
     document [TEXT_LINE ''1'' (str ''ASPIRINA''), TEXT_LINE ''2'' (str ''per 0 giorni'')]"

definition zero_then_seven_days_doc :: textract_json where
  "zero_then_seven_days_doc =
     document [TEXT_LINE ''1'' (str ''ASPIRINA''), TEXT_LINE ''2'' (str ''per 0 giorni''),
               TEXT_LINE ''3'' (str ''per 7 giorni'')]"

text \<open>
  A price table given out of order: rows 1 to 3 have four cells each, row 4 has three.
\<close>

definition WORD :: "string \<Rightarrow> ustr \<Rightarrow> block" where
  "WORD i t =
     \<lparr>BlockId = Some (str i), BlockType = Some (str ''WORD''), Text = Some t,
      Confidence = Some 99, RowIndex = None, ColumnIndex = None, Relationships = None\<rparr>"

definition CELL :: "string \<Rightarrow> int \<Rightarrow> int \<Rightarrow> string list \<Rightarrow> block" where
  "CELL i r c words =
     \<lparr>BlockId = Some (str i), BlockType = Some (str ''CELL''), Text = None,
      Confidence = Some 99, RowIndex = Some r, ColumnIndex = Some c,
      Relationships = Some [\<lparr>RelType = Some (str ''CHILD''), Ids = Some (map str words)\<rparr>]\<rparr>"

definition TABLE :: "string \<Rightarrow> string list \<Rightarrow> block" where
  "TABLE i cells =
     \<lparr>BlockId = Some (str i), BlockType = Some (str ''TABLE''), Text = None,
      Confidence = Some 99, RowIndex = None, ColumnIndex = None,
      Relationships = Some [\<lparr>RelType = Some (str ''CHILD''), Ids = Some (map str cells)\<rparr>]\<rparr>"

definition price_table :: block where
  "price_table =
     TABLE ''t'' [''c31'', ''c32'', ''c33'', ''c34'', ''c11'', ''c12'', ''c13'', ''c14'',
                  ''c41'', ''c42'', ''c43'', ''c21'', ''c22'', ''c23'', ''c24'']"

definition table_blocks :: "block list" where
  "table_blocks =
     [price_table,
      CELL ''c11'' 1 1 [''vite''], CELL ''c12'' 1 2 [''two''], CELL ''c13'' 1 3 [''price''],
      CELL ''c14'' 1 4 [''sum''],
      CELL ''c21'' 2 1 [''dado''], CELL ''c22'' 2 2 [''two''], CELL ''c23'' 2 3 [''price''],
      CELL ''c24'' 2 4 [''sum''],
      CELL ''c31'' 3 1 [''cavo'', ''usb''], CELL ''c32'' 3 2 [''two''],
      CELL ''c33'' 3 3 [''price''], CELL ''c34'' 3 4 [''sum''],
      CELL ''c41'' 4 1 [''vite''], CELL ''c42'' 4 2 [''two''], CELL ''c43'' 4 3 [''price''],
      WORD ''vite'' (str ''Vite''), WORD ''dado'' (str ''Dado''), WORD ''cavo'' (str ''Cavo''),
      WORD ''usb'' (str ''USB''), WORD ''two'' (str ''2''), WORD ''price'' (str ''1,50''),
      WORD ''sum'' (str ''3,00'')]"

text \<open>The same blocks followed by a second table, of one row with four cells.\<close>

definition second_table :: block where
  "second_table = TABLE ''u'' [''d11'', ''d12'', ''d13'', ''d14'']"

definition two_table_blocks :: "block list" where
  "two_table_blocks =
     table_blocks @
     [second_table,
      CELL ''d11'' 1 1 [''dado''], CELL ''d12'' 1 2 [''two''], CELL ''d13'' 1 3 [''price''],
      CELL ''d14'' 1 4 [''sum'']]"

definition two_table_bm :: block_map where
  "two_table_bm = map (\<lambda>b. (get_or [] (BlockId b), b)) two_table_blocks"

definition price_item :: "string \<Rightarrow> InvoiceLineItem" where
  "price_item d =
     \<lparr>description = Some (str d), qty = Some (Fin 2), unit_price = Some (Fin (3 / 2)),
      item_total = Some (Fin 3)\<rparr>"

section \<open>Evaluation\<close>

lemma rep_n_numeral [simp]: "rep_n (numeral k) r = Seq r (rep_n (pred_numeral k) r)"
  by (simp add: numeral_eq_Suc)

lemma rep_upto_numeral [simp]:
  "rep_upto (numeral k) r = Opt (Seq r (rep_upto (pred_numeral k) r))"
  by (simp add: numeral_eq_Suc)

lemmas eval_chars =
  str_def euro_def micro_def a_grave_def i_grave_def isspace_def isdigit_def
  is_upper_cp_def is_lower_cp_def tolower_def lower_cp_def lower_def isupper_def strip_def
  any_in_def replace_char_def case_fixes_def

lemmas eval_regex =
  group0_def group_def ca_def ch_def lit_def Plus_def Rep_def RepMin_def fullmatch_def

lemmas eval_lib =
  digits_re_def sign_re_def digits_value_def negative_def py_int_def either_case_def
  float_re_def
  opt_digits_def scale10_def py_float_def mean_def round_half_even_def round2_def
  is_leap_def days_in_month_def date_def strftime_def strptime_re_def strptime_def
  get_or_def subscript_def blocks_of_def

lemmas eval_invoice =
  coverage_def validation_def calc_quality_score_def invoice_extract_lines_def
  safe_float_def supplier_re_def find_supplier_name_def invoice_number_kw_def
  digits3_re_def issue_date_kw_def due_date_kw_def slash_or_dash_def date_re_def
  strptime_group_def gated_value_def fallback_value_def find_date_def total_kw_def
  total_re_def total_of_match_def find_total_def is_word_def get_text_def set_cell_def
  row_get_def line_item_of_row_def extract_line_items_def REQUIRED_FIELDS_def
  attr_is_None_def collect_warnings_def put_supplier_def put_invoice_number_def
  put_issue_date_def put_due_date_def put_total_def finish_def invoice_parse_data_def
  TextractInvoiceParser_def normalize_invoice_def new_Invoice_def Let_def

lemmas eval_prescription =
  prescription_extract_lines_def digits_1_2_def digits_2_4_def digits_plus_def spaces_def
  date_sep_def date_patterns_def month_map_def int_of_group_def date_strftime_def
  parse_date_try_def parse_date_def opt_colon_def quantity_patterns_def
  parse_quantity_def duration_patterns_def parse_duration_def frequency_patterns_def
  format_group_def parse_frequency_def amount_re_def unit_re_def dosage_patterns_def
  dosage_of_match_def parse_dosage_def point_def calculate_quality_score_def
  name_terms_def id_terms_def id_re_def prescriber_step_def form_terms_def
  is_med_header_def continue_med_def is_leftover_def add_warning_def
  prescription_parse_data_def normalize_prescription_def new_Prescription_def
  new_Medication_def

lemmas eval_docs =
  LINE_def TEXT_LINE_def BARE_LINE_def document_def totale_text_def

lemmas eval_all = eval_chars eval_regex eval_lib eval_invoice eval_prescription eval_docs

section \<open>What holds on every input\<close>

subsection \<open>Captured groups\<close>

lemma re_match_binds:
  "(s', g') \<in> set (re_match ic r s g) \<Longrightarrow> binds n r \<or> map_of g n \<noteq> None \<Longrightarrow>
   map_of g' n \<noteq> None"
proof (induction ic r s g arbitrary: s' g' rule: re_match.induct)
  case (1 ic s g)
  then show ?case by simp
next
  case (2 ic a s g)
  then show ?case by (cases s) (simp_all split: if_splits)
next
  case (3 ic as s g)
  then show ?case by (cases s) (simp_all split: if_splits)
next
  case (4 ic a b s g)
  from "4.prems"(1) obtain s1 g1 where
    a: "(s1, g1) \<in> set (re_match ic a s g)" and b: "(s', g') \<in> set (re_match ic b s1 g1)"
    by auto
  show ?case
  proof (cases "binds n a \<or> map_of g n \<noteq> None")
    case True
    with "4.IH"(1) [OF a] have "map_of g1 n \<noteq> None" by blast
    with "4.IH"(2) [OF a _ b] show ?thesis by blast
  next
    case False
    with "4.prems"(2) have "binds n b" by simp
    with "4.IH"(2) [OF a _ b] show ?thesis by blast
  qed
next
  case (5 ic a b s g)
  from "5.prems"(1) have "(s', g') \<in> set (re_match ic a s g) \<or> (s', g') \<in> set (re_match ic b s g)"
    by simp
  moreover from "5.prems"(2) have "binds n a \<or> map_of g n \<noteq> None" "binds n b \<or> map_of g n \<noteq> None"
    by auto
  ultimately show ?case
    using "5.IH" by blast
next
  case (6 ic a s g)
  from "6.prems"(2) have g: "map_of g n \<noteq> None" by simp
  from "6.prems"(1) have "(s', g') = (s, g) \<or> (s', g') \<in> set (re_match ic a s g)"
    by simp
  with g "6.IH" show ?case by blast
next
  case (7 ic a s g)
  from "7.prems"(2) have g: "map_of g n \<noteq> None" by simp
  from "7.prems"(1) have "(s', g') = (s, g) \<or>
      (\<exists>s1 g1. (s1, g1) \<in> set (re_match ic a s g) \<and> length s1 < length s \<and>
         (s', g') \<in> set (re_match ic (Star a) s1 g1))"
    by (subst (asm) re_match.simps(7)) (auto simp del: re_match.simps)
  then show ?case
  proof
    assume "(s', g') = (s, g)"
    with g show ?thesis by simp
  next
    assume "\<exists>s1 g1. (s1, g1) \<in> set (re_match ic a s g) \<and> length s1 < length s \<and>
         (s', g') \<in> set (re_match ic (Star a) s1 g1)"
    then obtain s1 g1 where
      a: "(s1, g1) \<in> set (re_match ic a s g)" and l: "length s1 < length s" and
      st: "(s', g') \<in> set (re_match ic (Star a) s1 g1)"
      by blast
    from "7.IH"(1) [OF a] g have g1: "map_of g1 n \<noteq> None" by blast
    from a l have "(s1, g1) \<in> set (filter (\<lambda>(s', g'). length s' < length s) (re_match ic a s g))"
      by simp
    from "7.IH"(2) [OF this refl st] g1 show ?thesis by blast
  qed
next
  case (8 ic k a s g)
  from "8.prems"(1) obtain g1 where
    a: "(s', g1) \<in> set (re_match ic a s g)" and g': "g' = (k, take (length s - length s') s) # g1"
    by auto
  show ?case
  proof (cases "k = n")
    case True
    with g' show ?thesis by simp
  next
    case False
    with "8.prems"(2) have "binds n a \<or> map_of g n \<noteq> None" by simp
    with "8.IH" [OF a] have "map_of g1 n \<noteq> None" by blast
    with g' False show ?thesis by simp
  qed
qed

lemma search_binds:
  assumes "search ic r s = Some mt" and "binds n r"
  shows "group n mt \<noteq> None"
  using assms(1)
proof (induction s)
  case Nil
  then obtain s' g where "(s', g) \<in> set (re_match ic r [] [])" and "mt = ([], g)"
    by (auto split: list.splits)
  with re_match_binds [of s' g ic r "[]" "[]" n] assms(2) show ?case
    by (simp add: group_def)
next
  case (Cons c t)
  show ?case
  proof (cases "re_match ic r (c # t) []")
    case Nil
    with Cons show ?thesis by simp
  next
    case (Cons res rest)
    obtain s' g where res: "res = (s', g)" by (cases res)
    with Cons have "(s', g) \<in> set (re_match ic r (c # t) [])"
      by simp
    with re_match_binds [of s' g ic r "c # t" "[]" n] assms(2) have "map_of g n \<noteq> None"
      by simp
    moreover from Cons res Cons.prems have "snd mt = g"
      by auto
    ultimately show ?thesis
      by (simp add: group_def)
  qed
qed

subsection \<open>The prescription extractors raise nothing\<close>

lemma py_int_error: "py_int s = Inl e \<Longrightarrow> e = ValueError"
  by (auto simp: py_int_def split: option.splits if_splits)

lemma first_int_total:
  assumes "\<forall>p \<in> set ps. binds 1 p"
  shows "\<exists>r. first_int ps text = Inr r"
  using assms
proof (induction ps)
  case Nil
  then show ?case by simp
next
  case (Cons p ps)
  show ?case
  proof (cases "search True p text")
    case None
    with Cons show ?thesis by simp
  next
    case (Some mt)
    with Cons.prems search_binds [of True p "text" mt 1] obtain s where "group 1 mt = Some s"
      by auto
    with Some Cons show ?thesis
      by (cases "py_int s") (auto simp: int_of_group_def dest: py_int_error)
  qed
qed

lemma parse_dosage_loop_total:
  assumes "\<forall>p \<in> set ps. binds 1 p"
  shows "\<exists>r. parse_dosage_loop ps text = Inr r"
  using assms
proof (induction ps)
  case Nil
  then show ?case by simp
next
  case (Cons p ps)
  show ?case
  proof (cases "search True p text")
    case None
    with Cons show ?thesis by simp
  next
    case (Some mt)
    with Cons.prems search_binds [of True p "text" mt 1] obtain s where "group 1 mt = Some s"
      by auto
    with Some show ?thesis
      by (simp add: dosage_of_match_def Let_def)
  qed
qed

lemmas eval_patterns =
  quantity_patterns_def duration_patterns_def dosage_patterns_def date_patterns_def
  digits_plus_def digits_1_2_def digits_2_4_def spaces_def opt_colon_def amount_re_def
  unit_re_def date_sep_def lit_def str_def Plus_def Rep_def

lemma parse_quantity_total: "\<exists>r. parse_quantity text = Inr r"
  unfolding parse_quantity_def by (rule first_int_total) (simp add: eval_patterns)

lemma parse_duration_total: "\<exists>r. parse_duration text = Inr r"
  unfolding parse_duration_def by (rule first_int_total) (simp add: eval_patterns)

lemma parse_dosage_total: "\<exists>r. parse_dosage text = Inr r"
  unfolding parse_dosage_def by (rule parse_dosage_loop_total) (simp add: eval_patterns)

lemma continue_med_total: "\<exists>m'. continue_med m line = Inr m'"
  using parse_quantity_total [of line] parse_duration_total [of line] parse_dosage_total [of line]
  by (auto simp: continue_med_def Let_def)

lemma med_loop_total: "\<exists>r. med_loop ls cur meds = Inr r"
proof (induction ls cur meds rule: med_loop.induct)
  case (1 cur meds)
  then show ?case by simp
next
  case (2 line ls cur meds)
  show ?case
  proof (cases "is_med_header line")
    case True
    with 2 show ?thesis by simp
  next
    case False
    show ?thesis
    proof (cases cur)
      case None
      with False 2 show ?thesis by simp
    next
      case (Some m)
      from continue_med_total obtain m' where "continue_med m line = Inr m'" by blast
      with False Some 2 show ?thesis by simp
    qed
  qed
qed


subsection \<open>\<open>_parse_date\<close> returns \<open>None\<close> on every text\<close>

lemma date_strftime_raises:
  "date_strftime y mo d = Inl ValueError \<or> date_strftime y mo d = Inl TypeError"
  by (simp add: date_strftime_def date_def strftime_def)

lemma int_of_group_cases:
  "int_of_group n mt = Inl ValueError \<or> int_of_group n mt = Inl TypeError \<or>
   (\<exists>v. int_of_group n mt = Inr v)"
proof (cases "int_of_group n mt")
  case (Inl e)
  then have "e = ValueError \<or> e = TypeError"
    by (auto simp: int_of_group_def dest: py_int_error split: option.splits)
  with Inl show ?thesis by auto
next
  case (Inr v)
  then show ?thesis by simp
qed

lemma strftime_caught:
  "(case date_strftime y mo d of Inl e \<Rightarrow> Inl e | Inr s \<Rightarrow> Inr (Some s)) = Inl ValueError \<or>
   (case date_strftime y mo d of Inl e \<Rightarrow> Inl e | Inr s \<Rightarrow> Inr (Some s)) = Inl TypeError"
  using date_strftime_raises [of y mo d] by auto

lemma int_bind_caught:
  fixes f :: "int \<Rightarrow> error + ustr option"
  assumes "\<And>v. f v = Inr None \<or> f v = Inl ValueError \<or> f v = Inl TypeError"
  shows "(case int_of_group n mt of Inl e \<Rightarrow> Inl e | Inr v \<Rightarrow> f v) = Inr None \<or>
         (case int_of_group n mt of Inl e \<Rightarrow> Inl e | Inr v \<Rightarrow> f v) = Inl ValueError \<or>
         (case int_of_group n mt of Inl e \<Rightarrow> Inl e | Inr v \<Rightarrow> f v) = Inl TypeError"
proof (cases "int_of_group n mt")
  case (Inl e)
  with int_of_group_cases [of n mt] show ?thesis by auto
next
  case (Inr v)
  with assms [of v] show ?thesis by simp
qed

lemma parse_date_try_cases:
  assumes "group 2 mt = Some ms"
  shows "parse_date_try line mt = Inr None \<or> parse_date_try line mt = Inl ValueError \<or>
         parse_date_try line mt = Inl TypeError"
proof (cases "str_in (str ''/'') line \<or> str_in (str ''-'') line \<or> str_in (str ''.'') line")
  case True
  then have "parse_date_try line mt =
      (case int_of_group 1 mt of Inl e \<Rightarrow> Inl e | Inr day \<Rightarrow>
      (case int_of_group 2 mt of Inl e \<Rightarrow> Inl e | Inr month \<Rightarrow>
      (case int_of_group 3 mt of Inl e \<Rightarrow> Inl e | Inr year \<Rightarrow>
         (let year' = (if year < 100 then year + (if year < 50 then 2000 else 1900)
                       else year)
          in case date_strftime year' month day of
               Inl e \<Rightarrow> Inl e | Inr s \<Rightarrow> Inr (Some s)))))"
    by (simp add: parse_date_try_def)
  also have "\<dots> = Inr None \<or> \<dots> = Inl ValueError \<or> \<dots> = Inl TypeError"
    by (intro int_bind_caught) (use strftime_caught in \<open>auto simp: Let_def\<close>)
  finally show ?thesis .
next
  case False
  then have "parse_date_try line mt =
      (case int_of_group 1 mt of Inl e \<Rightarrow> Inl e | Inr day \<Rightarrow>
      (case int_of_group 3 mt of Inl e \<Rightarrow> Inl e | Inr year \<Rightarrow>
         (case map_of month_map (lower ms) of
            None \<Rightarrow> Inr None
          | Some month \<Rightarrow>
              (case date_strftime year month day of
                 Inl e \<Rightarrow> Inl e | Inr s \<Rightarrow> Inr (Some s)))))"
    by (simp add: parse_date_try_def assms cong: sum.case_cong)
  also have "\<dots> = Inr None \<or> \<dots> = Inl ValueError \<or> \<dots> = Inl TypeError"
  proof (intro int_bind_caught)
    fix day year
    show "(case map_of month_map (lower ms) of
            None \<Rightarrow> Inr None
          | Some month \<Rightarrow>
              (case date_strftime year month day of
                 Inl e \<Rightarrow> Inl e | Inr s \<Rightarrow> Inr (Some s))) = Inr None \<or>
          (case map_of month_map (lower ms) of
            None \<Rightarrow> Inr None
          | Some month \<Rightarrow>
              (case date_strftime year month day of
                 Inl e \<Rightarrow> Inl e | Inr s \<Rightarrow> Inr (Some s))) = Inl ValueError \<or>
          (case map_of month_map (lower ms) of
            None \<Rightarrow> Inr None
          | Some month \<Rightarrow>
              (case date_strftime year month day of
                 Inl e \<Rightarrow> Inl e | Inr s \<Rightarrow> Inr (Some s))) = Inl TypeError"
      using strftime_caught by (cases "map_of month_map (lower ms)") auto
  qed
  finally show ?thesis .
qed

lemma parse_date_loop_None:
  assumes "\<forall>p \<in> set ps. binds 2 p"
  shows "parse_date_loop ps line = Inr None"
  using assms
proof (induction ps)
  case Nil
  then show ?case by simp
next
  case (Cons p ps)
  show ?case
  proof (cases "search False p line")
    case None
    with Cons show ?thesis by simp
  next
    case (Some mt)
    with Cons.prems search_binds [of False p line mt 2] obtain ms where "group 2 mt = Some ms"
      by auto
    from parse_date_try_cases [OF this, of line] Some Cons show ?thesis
      by auto
  qed
qed

lemma parse_date_None: "parse_date line = Inr None"
  unfolding parse_date_def by (rule parse_date_loop_None) (simp add: eval_patterns)

lemma find_prescription_date_None: "find_prescription_date ls = Inr None"
  by (induction ls) (simp_all add: parse_date_None)

subsection \<open>The keyword-gated date search returns no date\<close>

lemma gated_value_raises: "\<exists>e. gated_value mt = Inl e"
  by (simp add: gated_value_def strftime_def split: sum.splits)

lemma find_date_gated_finds_nothing:
  "find_date_gated kw ls = Inr None \<or> (\<exists>e. find_date_gated kw ls = Inl e)"
proof (induction ls)
  case Nil
  then show ?case by simp
next
  case (Cons l ls)
  show ?case
  proof (cases "search False date_re (line_text l)")
    case None
    with Cons show ?thesis by simp
  next
    case (Some mt)
    from gated_value_raises obtain e where "gated_value mt = Inl e" by blast
    with Some Cons show ?thesis by simp
  qed
qed

lemma find_date_no_fallback:
  "find_date kw False ls = Inr r \<Longrightarrow> r = None"
  using find_date_gated_finds_nothing [of kw ls]
  by (auto simp: find_date_def split: sum.splits option.splits)

lemma put_due_date_none [simp]: "put_due_date None st = st"
  by (simp add: put_due_date_def)

lemma due_date_untouched:
  "due_date (invoice (put_supplier a st)) = due_date (invoice st)"
  "due_date (invoice (put_invoice_number b st)) = due_date (invoice st)"
  "due_date (invoice (put_issue_date c st)) = due_date (invoice st)"
  "due_date (invoice (put_total d st)) = due_date (invoice st)"
  "due_date (invoice (finish items st)) = due_date (invoice st)"
  by (simp_all add: put_supplier_def put_invoice_number_def put_issue_date_def put_total_def
      finish_def Let_def split: option.splits)

lemma returned_invoice_has_no_due_date:
  assumes "normalize_invoice data = Inr iv"
  shows "due_date iv = None"
proof -
  from assms obtain issue due items where
    due: "find_date due_date_kw False (invoice_extract_lines data) = Inr due" and
    iv: "iv = invoice (finish items
           (put_total (find_total (invoice_extract_lines data))
             (put_due_date due
               (put_issue_date issue
                 (put_invoice_number (find_invoice_number (invoice_extract_lines data))
                   (put_supplier (find_supplier_name (invoice_extract_lines data))
                     \<lparr>invoice = new_Invoice, confidences = [], found_fields = 0\<rparr>))))))"
    by (auto simp: normalize_invoice_def TextractInvoiceParser_def invoice_parse_data_def Let_def
        split: sum.splits)
  from find_date_no_fallback [OF due] have "due = None" .
  then show ?thesis
    by (simp add: iv due_date_untouched new_Invoice_def)
qed

subsection \<open>The prescription parser always returns, with no date\<close>

lemma prescriber_loop_date:
  "prescription_date (prescriber_loop ls p) = prescription_date p"
  by (induction ls arbitrary: p) (simp_all add: prescriber_step_def Let_def split: option.splits)

lemma add_warning_date:
  "prescription_date (add_warning b w p) = prescription_date p"
  by (simp add: add_warning_def)

lemma calculate_quality_score_bounds:
  "0 \<le> calculate_quality_score p \<and> calculate_quality_score p \<le> 1 \<and>
   (prescription_date p = None \<longrightarrow> calculate_quality_score p \<le> 4 / 5)"
  by (simp add: calculate_quality_score_def point_def Let_def)

lemma prescription_parser_returns:
  "\<exists>p. normalize_prescription data = Inr p \<and> prescription_date p = None \<and>
       0 \<le> rx_quality_score p \<and> rx_quality_score p \<le> 4 / 5"
proof -
  obtain cur meds where "med_loop (prescription_extract_lines data) None [] = Inr (cur, meds)"
    using med_loop_total [of "prescription_extract_lines data" None "[]"] by auto
  then show ?thesis
    using calculate_quality_score_bounds
    by (simp add: normalize_prescription_def prescription_parse_data_def
        find_prescription_date_None Let_def add_warning_date prescriber_loop_date
        new_Prescription_def)
qed

subsection \<open>\<open>calc_quality_score\<close> on confidences between 0 and 1\<close>

lemma round2_unit:
  assumes "0 \<le> x" "x \<le> 1"
  shows "0 \<le> round2 x \<and> round2 x \<le> 1"
proof -
  let ?y = "x * 100"
  have y: "0 \<le> ?y" "?y \<le> 100"
    using assms by simp_all
  then have f: "0 \<le> \<lfloor>?y\<rfloor>" "\<lfloor>?y\<rfloor> \<le> 100"
    by (simp_all add: floor_le_iff le_floor_iff)
  have top: "?y - of_int \<lfloor>?y\<rfloor> = 0" if "\<lfloor>?y\<rfloor> = 100"
  proof -
    have "of_int \<lfloor>?y\<rfloor> \<le> ?y" by (rule of_int_floor_le)
    with that y(2) show ?thesis by simp
  qed
  have r: "round_half_even ?y = \<lfloor>?y\<rfloor> \<or> round_half_even ?y = \<lfloor>?y\<rfloor> + 1"
    by (simp add: round_half_even_def Let_def)
  have r100: "round_half_even ?y = \<lfloor>?y\<rfloor>" if "\<lfloor>?y\<rfloor> = 100"
    unfolding round_half_even_def Let_def top [OF that] by simp
  have "0 \<le> round_half_even ?y \<and> round_half_even ?y \<le> 100"
  proof (cases "\<lfloor>?y\<rfloor> = 100")
    case True
    with r100 show ?thesis by simp
  next
    case False
    with f r show ?thesis by linarith
  qed
  then show ?thesis
    by (simp add: round2_def)
qed

lemma mean_unit:
  assumes "xs \<noteq> []" "\<forall>x \<in> set xs. 0 \<le> x \<and> x \<le> 1"
  shows "0 \<le> mean xs \<and> mean xs \<le> 1"
proof -
  have "0 \<le> sum_list xs \<and> sum_list xs \<le> of_nat (length xs)"
    using assms(2) by (induction xs) auto
  moreover have "0 < (of_nat (length xs) :: rat)"
    using assms(1) by simp
  ultimately show ?thesis
    by (simp add: mean_def divide_le_eq)
qed

lemma calc_quality_score_unit:
  assumes "\<forall>c \<in> set cs. 0 \<le> c \<and> c \<le> 1" and "nf \<le> nt"
  shows "0 \<le> calc_quality_score cs nf nt \<and> calc_quality_score cs nf nt \<le> 1"
proof -
  let ?t = "if cs \<noteq> [] then mean cs else 0"
  let ?c = "coverage nf nt"
  have t: "0 \<le> ?t \<and> ?t \<le> 1"
    using mean_unit [of cs] assms(1) by auto
  have c: "0 \<le> ?c \<and> ?c \<le> 1"
    using assms(2) by (auto simp: coverage_def divide_le_eq)
  have v: "0 \<le> validation ?c \<and> validation ?c \<le> 1"
    by (simp add: validation_def)
  have "0 \<le> 4 / 10 * ?t + 4 / 10 * ?c + 2 / 10 * validation ?c \<and>
        4 / 10 * ?t + 4 / 10 * ?c + 2 / 10 * validation ?c \<le> 1"
    using t c v by auto
  then show ?thesis
    unfolding calc_quality_score_def Let_def by (intro round2_unit) auto
qed

section \<open>Claims\<close>

text \<open>
  C1. An invoice of one line, \<open>ACME SPA\<close> with Textract's confidence 98.2 (a
  percentage, as the specification's data model says). The supplier is found, so the
  mean confidence is 98.2, the coverage 1/4 and the validation 0.5:
  \<open>0.4 * 98.2 + 0.4 * 0.25 + 0.2 * 0.5 = 39.48\<close>. The invoice score is not in
  \<open>[0, 1]\<close>: \<open>calc_quality_score\<close> weighs the raw percentage.
\<close>

theorem invoice_score_above_one:
  "map_sum id quality_score (normalize_invoice supplier_only_doc) = Inr (3948 / 100)"
  by (simp add: supplier_only_doc_def eval_all)

text \<open>
  C2. A well-formed invoice graph of two lines whose second line is
  \<open>Due date 30/04/2024\<close>: the keyword-gated branch of \<open>_find_date\<close> parses the date
  and then calls \<open>.strftime()\<close> without a format, which raises \<open>TypeError\<close>; the
  handler catches \<open>ValueError\<close> only, so \<open>normalize_invoice\<close> raises and returns
  no record.
\<close>

theorem due_date_line_raises:
  "normalize_invoice due_date_doc = Inl TypeError"
  by (simp add: due_date_doc_def eval_all)

text \<open>
  C3. The two documented dates. For the invoice line \<open>Data documento 15/03/2024\<close>
  the parser raises \<open>TypeError\<close> instead of returning an invoice with issue date
  2024-03-15. For the prescription line \<open>Data: 15 marzo 2024\<close> the same call inside
  \<open>_parse_date\<close> raises \<open>TypeError\<close>, which that method catches, so the
  prescription date stays \<open>None\<close>.
\<close>

theorem documented_dates_not_produced:
  "normalize_invoice issue_date_doc = Inl TypeError \<and>
   map_sum id prescription_date (normalize_prescription rx_date_doc) = Inr None"
  by (simp add: issue_date_doc_def rx_date_doc_def eval_all)

text \<open>
  C4. The total line \<open>TOTALE \<euro> 1.234,56\<close> (confidence 98.2). The pattern captures
  the currency sign and the amount \<open>1.234,56\<close>; \<open>_safe_float\<close> replaces the comma and
  hands \<open>1.234.56\<close> to \<open>float\<close>, which rejects it. The invoice gets the currency
  and no total: the program does not produce the 1234.56 that the specification
  gives for this line.
\<close>

theorem totale_line_gives_no_amount:
  "map_sum id (\<lambda>iv. (invoice_total iv, currency iv)) (normalize_invoice totale_doc)
     = Inr (None, Some [euro])"
  by (simp add: totale_doc_def eval_all)

lemma missing_loop_required:
  "missing_loop iv REQUIRED_FIELDS ws =
     ws @
     (if invoice_number iv = None then [str ''Missing required field: invoice_number'']
      else []) @
     (if issue_date iv = None then [str ''Missing required field: issue_date''] else []) @
     (if supplier_name iv = None then [str ''Missing required field: supplier_name'']
      else []) @
     (if invoice_total iv = None then [str ''Missing required field: invoice_total'']
      else [])"
  by (simp add: REQUIRED_FIELDS_def attr_is_None_def str_def)

lemma finish_fields:
  "invoice_number (invoice (finish items st)) = invoice_number (invoice st)"
  "issue_date (invoice (finish items st)) = issue_date (invoice st)"
  "supplier_name (invoice (finish items st)) = supplier_name (invoice st)"
  "invoice_total (invoice (finish items st)) = invoice_total (invoice st)"
  "found_fields (finish items st) = found_fields st"
  by (simp_all add: finish_def Let_def)

lemma finish_warnings:
  "warnings (invoice (finish items st)) =
     collect_warnings
       ((invoice st)\<lparr>line_items := items,
          quality_score := calc_quality_score (confidences st) (found_fields st)
                             (length REQUIRED_FIELDS)\<rparr>)
       (found_fields st)"
  by (simp add: finish_def Let_def)

lemma parser_result_is_finish:
  assumes "TextractInvoiceParser data = Inr st"
  shows "\<exists>items st'. st = finish items st'"
  using assms
  by (auto simp: TextractInvoiceParser_def invoice_parse_data_def Let_def split: sum.splits)

text \<open>
  C5. Whenever the invoice parser returns, the warnings are: one
  \<open>Missing required field\<close> entry for each of invoice number, issue date, supplier
  name and invoice total that is \<open>None\<close> in the final invoice, in that order, then the
  generic warning exactly when \<open>found_fields < 4\<close>, and nothing else.
\<close>

theorem warnings_per_missing_field:
  assumes "TextractInvoiceParser data = Inr st"
  shows "warnings (invoice st) =
     (if invoice_number (invoice st) = None
      then [str ''Missing required field: invoice_number''] else []) @
     (if issue_date (invoice st) = None
      then [str ''Missing required field: issue_date''] else []) @
     (if supplier_name (invoice st) = None
      then [str ''Missing required field: supplier_name''] else []) @
     (if invoice_total (invoice st) = None
      then [str ''Missing required field: invoice_total''] else []) @
     (if found_fields st < 4
      then [str ''Some key fields not extracted with high confidence''] else [])"
proof -
  from parser_result_is_finish [OF assms] obtain items st' where st: "st = finish items st'"
    by blast
  have len: "length REQUIRED_FIELDS = 4"
    by (simp add: REQUIRED_FIELDS_def)
  show ?thesis
    unfolding st finish_fields finish_warnings collect_warnings_def Let_def
      missing_loop_required len
    by simp
qed

lemma supplier_only_state:
  "TextractInvoiceParser supplier_only_doc =
     Inr \<lparr>invoice =
            \<lparr>invoice_number = None, issue_date = None, due_date = None,
             supplier_name = Some (str ''ACME SPA''), currency = None,
             invoice_total = None, line_items = [],
             warnings =
               [str ''Missing required field: invoice_number'',
                str ''Missing required field: issue_date'',
                str ''Missing required field: invoice_total'',
                str ''Some key fields not extracted with high confidence''],
             quality_score = 3948 / 100\<rparr>,
          confidences = [982 / 10], found_fields = 1\<rparr>"
  by (simp add: supplier_only_doc_def eval_all)

theorem warnings_per_missing_field_witness:
  "\<exists>st. TextractInvoiceParser supplier_only_doc = Inr st \<and>
     warnings (invoice st) =
       [str ''Missing required field: invoice_number'',
        str ''Missing required field: issue_date'',
        str ''Missing required field: invoice_total'',
        str ''Some key fields not extracted with high confidence'']"
  using warnings_per_missing_field [OF supplier_only_state] supplier_only_state
  by simp

lemma put_cells_simps [simp]:
  "put_cells [] rows = rows"
  "put_cells ((r, c, x) # cells) rows = put_cells cells (set_cell r c x rows)"
  "put_cells (cs @ ds) rows = put_cells ds (put_cells cs rows)"
  by (simp_all add: put_cells_def)

lemma table_ids_put_cells:
  "table_ids bm ids rows = Inr rows' \<Longrightarrow> rows' = put_cells (cell_triples bm ids) rows"
  by (induction bm ids rows rule: table_ids.induct)
     (auto simp: subscript_def split: option.splits sum.splits if_splits)

lemma table_rels_put_cells:
  "table_rels bm rels rows = Inr rows' \<Longrightarrow>
   rows' = put_cells (concat (map (\<lambda>rel. cell_triples bm (child_ids rel)) rels)) rows"
  by (induction bm rels rows rule: table_rels.induct)
     (auto simp: subscript_def child_ids_def get_or_def dest: table_ids_put_cells
           split: option.splits sum.splits if_splits)

lemma describes_Nil: "describes [] []"
  by (simp add: describes_def)

lemma row_columns_snoc:
  "set (row_columns (cells @ [(r, c, x)]) r') =
     (if r' = r then insert c (set (row_columns cells r')) else set (row_columns cells r'))"
  by (auto simp: row_columns_def)

lemma cell_text_snoc:
  "cell_text (cells @ [(r, c, x)]) r' c' =
     (if r' = r \<and> c' = c then x else cell_text cells r' c')"
  by (simp add: cell_text_def)

lemma row_get_update:
  "row_get (AList.update c x row) c' = (if c' = c then x else row_get row c')"
  by (simp add: row_get_def get_or_def update_conv')

lemma describes_snoc:
  assumes "describes cells rows"
  shows "describes (cells @ [(r, c, x)]) (set_cell r c x rows)"
proof -
  let ?old = "get_or [] (map_of rows r)"
  have old: "distinct (map fst ?old) \<and> set (map fst ?old) = set (row_columns cells r) \<and>
      (\<forall>c. row_get ?old c = cell_text cells r c)"
  proof (cases "map_of rows r")
    case None
    then have "r \<notin> (\<lambda>(r, c, x). r) ` set cells"
      using assms by (auto simp: describes_def map_of_eq_None_iff)
    then have "filter (\<lambda>(r', c, x). r' = r) cells = []"
      by (force simp: filter_empty_conv)
    moreover from this have "filter (\<lambda>(r', c', x). r' = r \<and> c' = c0) cells = []" for c0
      by (auto simp: filter_empty_conv)
    ultimately show ?thesis
      using None by (simp add: get_or_def row_columns_def cell_text_def row_get_def)
  next
    case (Some row)
    then show ?thesis
      using assms by (simp add: describes_def get_or_def)
  qed
  have lookup: "map_of (set_cell r c x rows) r' =
      (if r' = r then Some (AList.update c x ?old) else map_of rows r')" for r'
    by (simp add: set_cell_def update_conv')
  show ?thesis
    unfolding describes_def
  proof (intro conjI allI impI)
    show "distinct (map fst (set_cell r c x rows))"
      using assms by (simp add: describes_def set_cell_def distinct_update)
    show "fst ` set (set_cell r c x rows) = (\<lambda>(r, c, x). r) ` set (cells @ [(r, c, x)])"
      using assms by (auto simp: describes_def set_cell_def dom_update)
  next
    fix r' row
    assume row: "map_of (set_cell r c x rows) r' = Some row"
    show "distinct (map fst row)"
      using row old assms
      by (auto simp: lookup describes_def distinct_update split: if_splits)
    show "set (map fst row) = set (row_columns (cells @ [(r, c, x)]) r')"
    proof (cases "r' = r")
      case True
      with row have "row = AList.update c x ?old"
        by (simp add: lookup)
      then have "set (map fst row) = insert c (set (map fst ?old))"
        by (simp add: dom_update)
      with old True show ?thesis
        by (simp add: row_columns_snoc)
    next
      case False
      with row have "map_of rows r' = Some row"
        by (simp add: lookup)
      with assms False show ?thesis
        by (simp add: describes_def row_columns_snoc)
    qed
    show "row_get row c' = cell_text (cells @ [(r, c, x)]) r' c'" for c'
      using row old assms
      by (auto simp: lookup describes_def cell_text_snoc row_get_update split: if_splits)
  qed
qed

lemma describes_put_cells: "describes cells (put_cells cells [])"
proof (induction cells rule: rev_induct)
  case Nil
  then show ?case by (simp add: describes_Nil)
next
  case (snoc cell cells)
  obtain r c x where "cell = (r, c, x)" by (cases cell)
  with snoc show ?case
    by (simp add: describes_snoc)
qed

lemma row_items_eq:
  "row_items rs items =
     items @ map (\<lambda>(r, row). line_item_of_row row) (filter (\<lambda>(r, row). 4 \<le> length row) rs)"
  by (induction rs items rule: row_items.induct) simp_all

lemma full_rows_sorted: "sorted (full_rows cells)" "distinct (full_rows cells)"
  by (simp_all add: full_rows_def)

lemma set_full_rows:
  "set (full_rows cells) =
     set (filter (\<lambda>r. 4 \<le> length (row_columns cells r)) (map (\<lambda>(r, c, x). r) cells))"
  by (simp add: full_rows_def)

lemma full_rows_three:
  assumes "set (filter (\<lambda>r. 4 \<le> length (row_columns cells r))
                 (map (\<lambda>(r, c, x). r) cells)) = {r1, r2, r3}"
      and "r1 < r2" "r2 < r3"
  shows "full_rows cells = [r1, r2, r3]"
proof -
  have "sorted [r1, r2, r3]" "distinct [r1, r2, r3]" "set (full_rows cells) = set [r1, r2, r3]"
    using assms by (auto simp: set_full_rows)
  with full_rows_sorted [of cells] show ?thesis
    by (rule_tac sorted_distinct_set_unique)
qed

lemma row_items_table:
  assumes rows: "table_rels bm (get_or [] (Relationships t)) [] = Inr rows"
  shows "row_items (sort_key fst rows) items = items @ table_line_items bm t"
proof -
  let ?cells = "table_cells bm t"
  let ?P = "\<lambda>(r, row). 4 \<le> length (row :: table_row)"
  let ?xs = "filter ?P (sort_key fst rows)"
  have "rows = put_cells ?cells []"
    using table_rels_put_cells [OF rows] by (simp add: table_cells_def)
  then have d: "describes ?cells rows"
    by (simp add: describes_put_cells)
  have dist: "distinct (map fst rows)"
    using d by (simp add: describes_def)
  have keys: "fst ` set rows = (\<lambda>(r, c, x). r) ` set ?cells"
    using d by (simp add: describes_def)
  have len: "length row = length (row_columns ?cells r)" if "map_of rows r = Some row" for r row
  proof -
    from d that have "distinct (map fst row)" "set (map fst row) = set (row_columns ?cells r)"
      by (auto simp: describes_def)
    moreover have "distinct (row_columns ?cells r)"
      by (simp add: row_columns_def)
    ultimately have "length (map fst row) = length (row_columns ?cells r)"
      by (metis distinct_card)
    then show ?thesis by simp
  qed
  have sets: "set (map fst ?xs) = set (full_rows ?cells)"
  proof (intro set_eqI iffI)
    fix r
    assume "r \<in> set (map fst ?xs)"
    then obtain row where in_rows: "(r, row) \<in> set rows" and "4 \<le> length row"
      by auto
    moreover from dist in_rows have "map_of rows r = Some row"
      by simp
    moreover from in_rows keys have "r \<in> (\<lambda>(r, c, x). r) ` set ?cells"
      by force
    ultimately show "r \<in> set (full_rows ?cells)"
      by (simp add: len set_full_rows)
  next
    fix r
    assume "r \<in> set (full_rows ?cells)"
    then have r: "r \<in> (\<lambda>(r, c, x). r) ` set ?cells" and n: "4 \<le> length (row_columns ?cells r)"
      by (auto simp: set_full_rows)
    from r keys obtain row where in_rows: "(r, row) \<in> set rows"
      by force
    with dist have "map_of rows r = Some row"
      by simp
    with n have "4 \<le> length row"
      by (simp add: len)
    with in_rows show "r \<in> set (map fst ?xs)"
      by force
  qed
  have "distinct (map fst (sort_key fst rows))"
    using dist by (simp add: distinct_map)
  then have dx: "distinct (map fst ?xs)"
    by (rule distinct_map_filter)
  have sx: "sorted (map fst ?xs)"
    by (rule sorted_filter) simp
  from sx dx full_rows_sorted [of ?cells] sets have keys_eq: "map fst ?xs = full_rows ?cells"
    by (rule sorted_distinct_set_unique)
  have "map (\<lambda>(r, row). line_item_of_row row) ?xs =
      map (\<lambda>p. line_item_of_cells ?cells (fst p)) ?xs"
  proof (rule map_cong [OF refl])
    fix p
    assume "p \<in> set ?xs"
    then have in_rows: "p \<in> set rows"
      by simp
    obtain r row where p: "p = (r, row)"
      by (cases p)
    from in_rows p have "(r, row) \<in> set rows"
      by simp
    with dist have "map_of rows r = Some row"
      by simp
    with d have "line_item_of_row row = line_item_of_cells ?cells r"
      by (simp add: describes_def line_item_of_row_def line_item_of_cells_def)
    with p show "(case p of (r, row) \<Rightarrow> line_item_of_row row) = line_item_of_cells ?cells (fst p)"
      by simp
  qed
  also have "\<dots> = map (line_item_of_cells ?cells) (map fst ?xs)"
    by (simp add: comp_def)
  finally show ?thesis
    by (simp add: row_items_eq keys_eq table_line_items_def)
qed

lemma line_items_loop_tables:
  assumes "\<forall>u \<in> set bs. is_table u \<longrightarrow>
             (\<exists>rows. table_rels bm (get_or [] (Relationships u)) [] = Inr rows)"
  shows "line_items_loop bm bs items =
           Inr (items @ concat (map (table_line_items bm) (filter is_table bs)))"
  using assms
proof (induction bs arbitrary: items)
  case Nil
  then show ?case by simp
next
  case (Cons b bs)
  show ?case
  proof (cases "is_table b")
    case True
    with Cons.prems obtain rows where
      rows: "table_rels bm (get_or [] (Relationships b)) [] = Inr rows"
      by auto
    from True have "BlockType b = Some (str ''TABLE'')"
      by (simp add: is_table_def)
    with rows True Cons show ?thesis
      by (simp add: row_items_table [OF rows])
  next
    case False
    then have "BlockType b \<noteq> Some (str ''TABLE'')"
      by (simp add: is_table_def)
    with False Cons show ?thesis by simp
  qed
qed

lemma only_table_gives_three_items:
  assumes bm: "build_block_map bs [] = Inr bm"
      and tbl: "filter is_table bs = [t]"
      and rows: "table_rels bm (get_or [] (Relationships t)) [] = Inr rows"
      and full: "set (filter (\<lambda>r. 4 \<le> length (row_columns (table_cells bm t) r))
                         (map (\<lambda>(r, c, x). r) (table_cells bm t))) = {r1, r2, r3}"
      and lt: "r1 < r2" "r2 < r3"
  shows "extract_line_items (document bs) =
           Inr (map (line_item_of_cells (table_cells bm t)) [r1, r2, r3])"
proof -
  have "u = t" if "u \<in> set bs" "is_table u" for u
  proof -
    from that have "u \<in> set (filter is_table bs)"
      by simp
    with tbl show ?thesis
      by simp
  qed
  with rows have resolve: "\<forall>u \<in> set bs. is_table u \<longrightarrow>
      (\<exists>rows. table_rels bm (get_or [] (Relationships u)) [] = Inr rows)"
    by blast
  have "extract_line_items (document bs) = line_items_loop bm bs []"
    by (simp add: extract_line_items_def document_def blocks_of_def get_or_def bm)
  then show ?thesis
    by (simp add: line_items_loop_tables [OF resolve] tbl table_line_items_def
        full_rows_three [OF full lt])
qed

text \<open>
  C6, as the code has it. \<open>_extract_line_items\<close> appends to one list the rows of every TABLE
  block of the graph, so a table with three full rows does not by itself make the
  result three items long. Take a graph in which every block has an id and the
  relationships of every TABLE block resolve, and in it a TABLE block \<open>t\<close> whose rows
  with at least four populated columns are exactly \<open>r1 < r2 < r3\<close> (any other row of
  \<open>t\<close> has fewer, for instance three). Then the result is: the line items of the TABLE
  blocks before \<open>t\<close>, then exactly three line items for \<open>t\<close>, those of rows \<open>r1\<close>,
  \<open>r2\<close>, \<open>r3\<close> in this order, each read off columns 1 to 4 of its row, then the line
  items of the TABLE blocks after \<open>t\<close>. Every table gives one line item for each of
  its rows with at least four populated columns, in ascending row index, and none for
  any other row. When \<open>t\<close> is the only TABLE block the result is exactly the three
  line items of \<open>t\<close>.
\<close>

theorem every_table_adds_its_full_rows:
  assumes bm: "build_block_map bs [] = Inr bm"
      and resolve: "\<forall>u \<in> set bs. is_table u \<longrightarrow>
                      (\<exists>rows. table_rels bm (get_or [] (Relationships u)) [] = Inr rows)"
      and place: "bs = before @ t # after" "is_table t"
      and full: "set (filter (\<lambda>r. 4 \<le> length (row_columns (table_cells bm t) r))
                         (map (\<lambda>(r, c, x). r) (table_cells bm t))) = {r1, r2, r3}"
      and lt: "r1 < r2" "r2 < r3"
  shows "extract_line_items (document bs) =
           Inr (concat (map (table_line_items bm) (filter is_table before)) @
                map (line_item_of_cells (table_cells bm t)) [r1, r2, r3] @
                concat (map (table_line_items bm) (filter is_table after)))"
proof -
  have "table_line_items bm t = map (line_item_of_cells (table_cells bm t)) [r1, r2, r3]"
    by (simp add: table_line_items_def full_rows_three [OF full lt])
  moreover have "extract_line_items (document bs) = line_items_loop bm bs []"
    by (simp add: extract_line_items_def document_def blocks_of_def get_or_def bm)
  moreover have "filter is_table bs = filter is_table before @ t # filter is_table after"
    using place by simp
  ultimately show ?thesis
    by (simp add: line_items_loop_tables [OF resolve])
qed


lemmas eval_table =
  WORD_def CELL_def TABLE_def price_table_def table_blocks_def price_item_def
  child_ids_def table_cells_def row_columns_def cell_text_def line_item_of_cells_def
  second_table_def two_table_blocks_def two_table_bm_def is_table_def full_rows_def
  table_line_items_def

lemma two_table_bm: "build_block_map two_table_blocks [] = Inr two_table_bm"
  by (simp add: eval_table str_def subscript_def get_or_def)

lemma price_table_cells:
  "table_cells two_table_bm price_table =
     [(3, 1, str ''Cavo USB''), (3, 2, str ''2''), (3, 3, str ''1,50''), (3, 4, str ''3,00''),
      (1, 1, str ''Vite''), (1, 2, str ''2''), (1, 3, str ''1,50''), (1, 4, str ''3,00''),
      (4, 1, str ''Vite''), (4, 2, str ''2''), (4, 3, str ''1,50''),
      (2, 1, str ''Dado''), (2, 2, str ''2''), (2, 3, str ''1,50''), (2, 4, str ''3,00'')]"
  by (simp add: eval_table eval_chars get_or_def subscript_def get_text_def is_word_def)

lemma second_table_cells:
  "table_cells two_table_bm second_table =
     [(1, 1, str ''Dado''), (1, 2, str ''2''), (1, 3, str ''1,50''), (1, 4, str ''3,00'')]"
  by (simp add: eval_table eval_chars get_or_def subscript_def get_text_def is_word_def)

lemma price_table_alone_gives_three_items:
  "extract_line_items (document table_blocks) =
     Inr [price_item ''Vite'', price_item ''Dado'', price_item ''Cavo USB'']"
  by (simp add: eval_table eval_all get_text_def is_word_def set_cell_def)

theorem every_table_adds_its_full_rows_witness:
  "extract_line_items (document two_table_blocks) =
     Inr ([price_item ''Vite'', price_item ''Dado'', price_item ''Cavo USB''] @
          [price_item ''Dado''])"
proof -
  have resolve: "\<forall>u \<in> set two_table_blocks. is_table u \<longrightarrow>
      (\<exists>rows. table_rels two_table_bm (get_or [] (Relationships u)) [] = Inr rows)"
    by (simp add: eval_table eval_chars get_or_def subscript_def get_text_def is_word_def
        set_cell_def)
  have place: "two_table_blocks = [] @ price_table # tl two_table_blocks" "is_table price_table"
    by (simp_all add: two_table_blocks_def table_blocks_def is_table_def price_table_def
        TABLE_def)
  have full:
    "set (filter (\<lambda>r. 4 \<le> length (row_columns (table_cells two_table_bm price_table) r))
           (map (\<lambda>(r, c, x). r) (table_cells two_table_bm price_table))) = {1, 2, 3}"
    unfolding price_table_cells by (auto simp: row_columns_def)
  have items:
    "map (line_item_of_cells (table_cells two_table_bm price_table)) [1, 2, 3] =
       [price_item ''Vite'', price_item ''Dado'', price_item ''Cavo USB'']"
    unfolding price_table_cells
    by (simp add: line_item_of_cells_def cell_text_def price_item_def eval_chars eval_regex
        eval_lib safe_float_def)
  have later: "filter is_table (tl two_table_blocks) = [second_table]"
    by (simp add: eval_table str_def)
  have second: "table_line_items two_table_bm second_table = [price_item ''Dado'']"
    unfolding table_line_items_def second_table_cells
    by (simp add: full_rows_def row_columns_def line_item_of_cells_def cell_text_def
        price_item_def eval_chars eval_regex eval_lib safe_float_def)
  show ?thesis
    using every_table_adds_its_full_rows [OF two_table_bm resolve place full] items later second
    by simp
qed


text \<open>
  C6 as the specification states it fails on a graph with a second table: the graph
  contains the price table, whose rows with four populated columns are 1, 2 and 3, and
  table reconstruction yields four line items.
\<close>

theorem second_table_adds_a_fourth_item:
  "price_table \<in> set two_table_blocks \<and>
   full_rows (table_cells two_table_bm price_table) = [1, 2, 3] \<and>
   extract_line_items (document two_table_blocks) =
     Inr [price_item ''Vite'', price_item ''Dado'', price_item ''Cavo USB'', price_item ''Dado'']"
proof (intro conjI)
  show "price_table \<in> set two_table_blocks"
    by (simp add: two_table_blocks_def table_blocks_def)
  show "full_rows (table_cells two_table_bm price_table) = [1, 2, 3]"
    unfolding price_table_cells by (simp add: full_rows_def row_columns_def)
  show "extract_line_items (document two_table_blocks) =
     Inr [price_item ''Vite'', price_item ''Dado'', price_item ''Cavo USB'', price_item ''Dado'']"
    by (simp add: eval_table eval_all get_text_def is_word_def set_cell_def)
qed

lemma medication_doc_parsed:
  "map_sum id medications (normalize_prescription medication_doc) =
     Inr [\<lparr>drug_name = Some (str ''AMOXICILLINA''), dosage_text = Some (str ''500 mg''),
           frequency_text = Some (str ''2 volte al giorno''), duration_days = Some 7,
           quantity = Some 500\<rparr>,
          \<lparr>drug_name = Some (str ''ACICLOVIR CREMA''), dosage_text = None,
           frequency_text = None, duration_days = None, quantity = None\<rparr>]"
  by (simp add: medication_doc_def eval_all)

text \<open>
  C7, as the code has it. The six lines give two medications. The first is
  AMOXICILLINA with dosage \<open>500 mg\<close>, frequency \<open>2 volte al giorno\<close>, duration 7
  and also quantity 500: the line \<open>500 mg\<close> matches the last quantity pattern, whose
  units include \<open>mg\<close>. The second is ACICLOVIR CREMA with no other attribute: the
  line \<open>applicare 2 volte al d\<close> + U+00EC matches none of the four frequency patterns.
\<close>

theorem medication_scenario:
  "\<exists>p. normalize_prescription medication_doc = Inr p \<and>
       medications p =
         [\<lparr>drug_name = Some (str ''AMOXICILLINA''), dosage_text = Some (str ''500 mg''),
           frequency_text = Some (str ''2 volte al giorno''), duration_days = Some 7,
           quantity = Some 500\<rparr>,
          \<lparr>drug_name = Some (str ''ACICLOVIR CREMA''), dosage_text = None,
           frequency_text = None, duration_days = None, quantity = None\<rparr>]"
  using medication_doc_parsed
  by (cases "normalize_prescription medication_doc") simp_all

text \<open>
  C7 as stated fails: the medications parsed are not the two of the specification's
  scenario (first without a quantity, second with frequency \<open>2 volte al giorno\<close>).
\<close>

theorem medication_scenario_not_as_specified:
  "map_sum id medications (normalize_prescription medication_doc) \<noteq>
     Inr [\<lparr>drug_name = Some (str ''AMOXICILLINA''), dosage_text = Some (str ''500 mg''),
           frequency_text = Some (str ''2 volte al giorno''), duration_days = Some 7,
           quantity = None\<rparr>,
          \<lparr>drug_name = Some (str ''ACICLOVIR CREMA''), dosage_text = None,
           frequency_text = Some (str ''2 volte al giorno''), duration_days = None,
           quantity = None\<rparr>]"
  using medication_doc_parsed by simp

lemma med_loop_append:
  "med_loop (ls1 @ ls2) cur meds =
     (case med_loop ls1 cur meds of
        Inl e \<Rightarrow> Inl e
      | Inr (cur', meds') \<Rightarrow> med_loop ls2 cur' meds')"
  by (induction ls1 cur meds rule: med_loop.induct) (auto split: option.splits sum.splits)

lemma parse_dosage_loop_nonempty:
  "parse_dosage_loop ps line = Inr (Some v) \<Longrightarrow> v \<noteq> []"
  by (induction ps) (auto simp: dosage_of_match_def Let_def str_def split: option.splits sum.splits if_splits)

lemma parse_frequency_loop_nonempty:
  "parse_frequency_loop ps line = Some v \<Longrightarrow> v \<noteq> []"
  by (induction ps) (auto simp: str_def split: option.splits)

lemma continue_med_kept:
  assumes "continue_med m line = Inr m'"
  shows "kept m m'"
  using assms unfolding kept_def
  by (auto simp: continue_med_def Let_def text_ok_def parse_dosage_def parse_frequency_def
      dest: parse_dosage_loop_nonempty parse_frequency_loop_nonempty
      split: sum.splits if_splits)

lemma kept_refl: "kept m m"
  by (simp add: kept_def)

lemma kept_trans: "kept a b \<Longrightarrow> kept b c \<Longrightarrow> kept a c"
  by (cases "dosage_text a"; cases "frequency_text a"; cases "duration_days a"; cases "quantity a")
     (auto simp: kept_def)

lemma med_loop_continuations:
  assumes "\<forall>line \<in> set ls. \<not> is_med_header line"
      and "med_loop ls (Some m) meds = Inr (cur, meds')"
  shows "\<exists>m'. cur = Some m' \<and> meds' = meds \<and> kept m m'"
  using assms
proof (induction ls arbitrary: m)
  case Nil
  then show ?case by (auto simp: kept_refl)
next
  case (Cons line ls)
  from Cons.prems obtain m1 where
    step: "continue_med m line = Inr m1" and rest: "med_loop ls (Some m1) meds = Inr (cur, meds')"
    by (auto split: sum.splits)
  from Cons.IH [OF _ rest] Cons.prems(1) obtain m' where
    "cur = Some m'" "meds' = meds" "kept m1 m'"
    by auto
  with continue_med_kept [OF step] show ?case
    by (auto intro: kept_trans)
qed

text \<open>
  C8, as the code has it. Let the lines \<open>ls1 @ ls2\<close> after a medication header all be
  continuation lines. The loop returns; let \<open>m1\<close> be the medication after \<open>ls1\<close>
  and \<open>m2\<close> after \<open>ls1 @ ls2\<close>. A dosage or frequency text that is set in \<open>m1\<close>
  is the same in \<open>m2\<close>; a duration or quantity that is set in \<open>m1\<close> and is not zero
  is the same in \<open>m2\<close>. (The guards test truthiness, so a duration or quantity of 0
  counts as not set.)
\<close>

theorem truthy_attribute_never_overwritten:
  assumes "\<forall>line \<in> set (ls1 @ ls2). \<not> is_med_header line"
  shows "\<exists>m1 m2.
           med_loop ls1 (Some (new_Medication header)) meds = Inr (Some m1, meds) \<and>
           med_loop (ls1 @ ls2) (Some (new_Medication header)) meds = Inr (Some m2, meds) \<and>
           (dosage_text m1 \<noteq> None \<longrightarrow> dosage_text m2 = dosage_text m1) \<and>
           (frequency_text m1 \<noteq> None \<longrightarrow> frequency_text m2 = frequency_text m1) \<and>
           (duration_days m1 \<noteq> None \<and> duration_days m1 \<noteq> Some 0 \<longrightarrow>
              duration_days m2 = duration_days m1) \<and>
           (quantity m1 \<noteq> None \<and> quantity m1 \<noteq> Some 0 \<longrightarrow> quantity m2 = quantity m1)"
proof -
  from med_loop_total [of "ls1 @ ls2" "Some (new_Medication header)" meds]
  obtain res where "med_loop (ls1 @ ls2) (Some (new_Medication header)) meds = Inr res"
    by blast
  then obtain cur2 meds2 where
    whole: "med_loop (ls1 @ ls2) (Some (new_Medication header)) meds = Inr (cur2, meds2)"
    by (cases res) simp
  then obtain c1 ms1 where
    first: "med_loop ls1 (Some (new_Medication header)) meds = Inr (c1, ms1)" and
    second: "med_loop ls2 c1 ms1 = Inr (cur2, meds2)"
    by (auto simp: med_loop_append split: sum.splits)
  from med_loop_continuations [OF _ first] assms obtain m1 where
    m1: "c1 = Some m1" "ms1 = meds" "kept (new_Medication header) m1"
    by auto
  from med_loop_continuations [OF _ second [unfolded m1(1,2)]] assms obtain m2 where
    m2: "cur2 = Some m2" "meds2 = meds" "kept m1 m2"
    by auto
  have ok: "text_ok m1"
    using m1(3) by (simp add: kept_def text_ok_def new_Medication_def)
  have "dosage_text m1 \<noteq> None \<longrightarrow> truthy_str (dosage_text m1)"
    using ok by (cases "dosage_text m1") (auto simp: text_ok_def)
  moreover have "frequency_text m1 \<noteq> None \<longrightarrow> truthy_str (frequency_text m1)"
    using ok by (cases "frequency_text m1") (auto simp: text_ok_def)
  moreover have "duration_days m1 \<noteq> None \<and> duration_days m1 \<noteq> Some 0 \<longrightarrow>
      truthy_int (duration_days m1)"
    by (cases "duration_days m1") auto
  moreover have "quantity m1 \<noteq> None \<and> quantity m1 \<noteq> Some 0 \<longrightarrow> truthy_int (quantity m1)"
    by (cases "quantity m1") auto
  ultimately show ?thesis
    using first whole m1 m2 by (auto simp: kept_def)
qed

lemma aspirina_lines_not_headers:
  "\<forall>line \<in> set ([str ''500 mg''] @ [str ''20 mg'', str ''per 7 giorni'']). \<not> is_med_header line"
  by (simp add: eval_all)

lemma aspirina_loop:
  "med_loop ([str ''500 mg''] @ [str ''20 mg'', str ''per 7 giorni''])
     (Some (new_Medication (str ''ASPIRINA''))) []
   = Inr (Some \<lparr>drug_name = Some (str ''ASPIRINA''), dosage_text = Some (str ''500 mg''),
                frequency_text = None, duration_days = Some 7, quantity = Some 500\<rparr>, [])"
  by (simp add: eval_all)

lemma aspirina_first:
  "med_loop [str ''500 mg''] (Some (new_Medication (str ''ASPIRINA''))) []
   = Inr (Some \<lparr>drug_name = Some (str ''ASPIRINA''), dosage_text = Some (str ''500 mg''),
                frequency_text = None, duration_days = None, quantity = Some 500\<rparr>, [])"
  by (simp add: eval_all)

theorem truthy_attribute_never_overwritten_witness:
  "\<exists>m1 m2.
     med_loop [str ''500 mg''] (Some (new_Medication (str ''ASPIRINA''))) []
       = Inr (Some m1, []) \<and>
     med_loop ([str ''500 mg''] @ [str ''20 mg'', str ''per 7 giorni''])
       (Some (new_Medication (str ''ASPIRINA''))) [] = Inr (Some m2, []) \<and>
     dosage_text m1 = Some (str ''500 mg'') \<and> dosage_text m2 = dosage_text m1 \<and>
     quantity m1 = Some 500 \<and> quantity m2 = quantity m1"
  using truthy_attribute_never_overwritten
          [OF aspirina_lines_not_headers, of "str ''ASPIRINA''" "[]"]
  unfolding aspirina_first aspirina_loop
  by simp

text \<open>
  C8 as stated fails for a zero: after \<open>ASPIRINA\<close>, \<open>per 0 giorni\<close> the duration is
  set to 0; the further continuation line \<open>per 7 giorni\<close> changes it to 7.
\<close>

theorem zero_duration_is_overwritten:
  "map_sum id (map duration_days \<circ> medications) (normalize_prescription zero_days_doc)
     = Inr [Some 0] \<and>
   \<not> is_med_header (str ''per 7 giorni'') \<and>
   map_sum id (map duration_days \<circ> medications)
     (normalize_prescription zero_then_seven_days_doc) = Inr [Some 7]"
  by (simp add: zero_days_doc_def zero_then_seven_days_doc_def eval_all)


text \<open>
  C9, as the code has it. The invoice parser's sequence has one entry for every
  LINE block, in order, with the trimmed text (empty when \<open>Text\<close> is absent) and the
  confidence (0 when absent). The prescription parser's sequence has the untrimmed
  text of every LINE block that has a \<open>Text\<close> field, in order; a LINE block without
  one is left out.
\<close>

theorem lines_flattened:
  "invoice_extract_lines data =
     map (\<lambda>b. \<lparr>line_text = strip (get_or [] (Text b)),
                 line_confidence = get_or 0 (Confidence b)\<rparr>)
         (filter (\<lambda>b. BlockType b = Some (str ''LINE'')) (blocks_of data)) \<and>
   prescription_extract_lines data =
     map (\<lambda>b. get_or [] (Text b))
         (filter (\<lambda>b. BlockType b = Some (str ''LINE'') \<and> Text b \<noteq> None)
                 (blocks_of data))"
proof -
  have iv: "invoice_lines_loop bs acc =
       acc @ map (\<lambda>b. \<lparr>line_text = strip (get_or [] (Text b)),
                         line_confidence = get_or 0 (Confidence b)\<rparr>)
                 (filter (\<lambda>b. BlockType b = Some (str ''LINE'')) bs)" for bs acc
    by (induction bs arbitrary: acc) simp_all
  have rx: "prescription_lines_loop bs acc =
       acc @ map (\<lambda>b. get_or [] (Text b))
                 (filter (\<lambda>b. BlockType b = Some (str ''LINE'') \<and> Text b \<noteq> None) bs)"
    for bs acc
    by (induction bs arbitrary: acc) simp_all
  show ?thesis
    by (simp add: invoice_extract_lines_def prescription_extract_lines_def iv rx)
qed

text \<open>
  C9 as stated fails for the prescription parser: a graph whose only block is a LINE
  without a \<open>Text\<close> field has one LINE node; the invoice parser's sequence has one
  entry for it, the prescription parser's sequence has none.
\<close>

theorem bare_line_dropped_by_prescription_parser:
  "length (filter (\<lambda>b. BlockType b = Some (str ''LINE'')) (blocks_of bare_line_doc)) = 1 \<and>
   length (invoice_extract_lines bare_line_doc) = 1 \<and>
   prescription_extract_lines bare_line_doc = []"
  by (simp add: bare_line_doc_def eval_all)

lemma four_fields_state:
  "TextractInvoiceParser four_fields_doc =
     Inr \<lparr>invoice =
            \<lparr>invoice_number = Some (str ''12345''),
             issue_date = Some (DateObj (Date 2024 3 15)), due_date = None,
             supplier_name = Some (str ''ACME SPA''), currency = Some [euro],
             invoice_total = None, line_items = [],
             warnings = [str ''Missing required field: invoice_total''],
             quality_score = 4012 / 100\<rparr>,
          confidences = [99, 99, 99, 982 / 10], found_fields = 4\<rparr>"
  by (simp add: four_fields_doc_def eval_all)

lemma four_fields_total:
  "find_total (invoice_extract_lines four_fields_doc) =
     Some \<lparr>total_value = None, total_currency = [euro], total_confidence = 982 / 10\<rparr>"
  by (simp add: four_fields_doc_def eval_all)

text \<open>
  C10. There is an invoice (supplier, invoice number, a date and the line
  \<open>TOTALE \<euro> 1.234,56\<close>) on which \<open>_find_total\<close> matches but the amount does not
  parse: the invoice total is \<open>None\<close> and \<open>Missing required field: invoice_total\<close> is
  a warning, yet the match is counted, so \<open>found_fields\<close> is 4, coverage and validation
  are 1, and the generic warning is absent.
\<close>

theorem unparsed_total_counts_as_found:
  "\<exists>data st r.
     TextractInvoiceParser data = Inr st \<and>
     find_total (invoice_extract_lines data) = Some r \<and> total_value r = None \<and>
     invoice_total (invoice st) = None \<and>
     str ''Missing required field: invoice_total'' \<in> set (warnings (invoice st)) \<and>
     supplier_name (invoice st) \<noteq> None \<and> invoice_number (invoice st) \<noteq> None \<and>
     issue_date (invoice st) \<noteq> None \<and>
     found_fields st = 4 \<and>
     coverage (found_fields st) (length REQUIRED_FIELDS) = 1 \<and>
     validation (coverage (found_fields st) (length REQUIRED_FIELDS)) = 1 \<and>
     str ''Some key fields not extracted with high confidence'' \<notin> set (warnings (invoice st))"
  apply (rule exI [of _ four_fields_doc])
  apply (simp only: four_fields_state four_fields_total)
  apply (simp add: coverage_def validation_def REQUIRED_FIELDS_def str_def)
  done

end
